theory Spec2Isabelle
  imports Complex_Main
begin

section \<open>The edge proxy \<open>/functions/api/alpha/index.js\<close> (latest revision)\<close>

text \<open>
  The source file holds three successive revisions of the same handler. The model below
  embeds the latest one (single-flight, retry, bundle mode, cache namespace \<open>v3\<close>).
  Asynchronous code is read sequentially: one request runs from its first statement to
  its returned response, every \<open>await\<close> yielding its value to the next statement.
\<close>

subsection \<open>JavaScript values\<close>

text \<open>
  A value produced by \<open>JSON.parse\<close>. An object is the list of its own properties, each
  key once; a number is the value of the parsed double.
\<close>

datatype json =
    JNull
  | JBool bool
  | JNum rat
  | JStr string
  | JArr "json list"
  | JObj "(string \<times> json) list"

text \<open>JavaScript's ToBoolean on such a value: \<open>null\<close>, \<open>false\<close>, \<open>0\<close> and \<open>""\<close> are falsy.\<close>

fun truthy :: "json \<Rightarrow> bool" where
  "truthy JNull = False"
| "truthy (JBool b) = b"
| "truthy (JNum n) = (n \<noteq> 0)"
| "truthy (JStr s) = (s \<noteq> [])"
| "truthy (JArr xs) = True"
| "truthy (JObj kvs) = True"

text \<open>\<open>typeof v === "object"\<close>: true of \<open>null\<close>, of arrays and of objects.\<close>

fun typeof_object :: "json \<Rightarrow> bool" where
  "typeof_object JNull = True"
| "typeof_object (JArr xs) = True"
| "typeof_object (JObj kvs) = True"
| "typeof_object v = False"

text \<open>
  Property access \<open>data[k]\<close> for a key that no prototype defines: \<open>None\<close> is
  \<open>undefined\<close>. Only objects carry such keys.
\<close>

fun get_prop :: "json \<Rightarrow> string \<Rightarrow> json option" where
  "get_prop (JObj kvs) k = map_of kvs k"
| "get_prop v k = None"

text \<open>The test \<open>if (data[k])\<close>: the property is there and its value is truthy.\<close>

definition prop_truthy :: "json \<Rightarrow> string \<Rightarrow> bool" where
  "prop_truthy data k = (case get_prop data k of None \<Rightarrow> False | Some v \<Rightarrow> truthy v)"

text \<open>The value of \<open>data[k]\<close> once the test has passed (\<open>undefined\<close> serialises as absent).\<close>

definition prop_value :: "json \<Rightarrow> string \<Rightarrow> json" where
  "prop_value data k = (case get_prop data k of None \<Rightarrow> JNull | Some v \<Rightarrow> v)"

subsection \<open>Problem classification\<close>

record problem =
  status :: nat
  msg :: json
  kind :: string

text \<open>
  \<^verbatim>\<open>
  function avProblem(data, status) {
    if (!data || typeof data !== "object") return null;
    if (status === 429) return { status: 429, msg: "rate_limited", kind: "429" };
    if (data.Note) return { status: 429, msg: data.Note, kind: "note" };
    if (data.Information) return { status: 429, msg: data.Information, kind: "info" };
    if (data["Error Message"]) return { status: 400, msg: data["Error Message"], kind: "error" };
    return null;
  }
  \<close>
\<close>

definition avProblem :: "json \<Rightarrow> nat \<Rightarrow> problem option" where
  "avProblem data st =
     (if \<not> truthy data \<or> \<not> typeof_object data then None
      else if st = 429 then Some \<lparr>status = 429, msg = JStr ''rate_limited'', kind = ''429''\<rparr>
      else if prop_truthy data ''Note''
        then Some \<lparr>status = 429, msg = prop_value data ''Note'', kind = ''note''\<rparr>
      else if prop_truthy data ''Information''
        then Some \<lparr>status = 429, msg = prop_value data ''Information'', kind = ''info''\<rparr>
      else if prop_truthy data ''Error Message''
        then Some \<lparr>status = 400, msg = prop_value data ''Error Message'', kind = ''error''\<rparr>
      else None)"

text \<open>The classes of the taxonomy, read off a classifier result.\<close>

definition rate_limited :: "problem option \<Rightarrow> bool" where
  "rate_limited p = (case p of None \<Rightarrow> False | Some q \<Rightarrow> status q = 429)"

definition bad_request :: "problem option \<Rightarrow> bool" where
  "bad_request p = (case p of None \<Rightarrow> False | Some q \<Rightarrow> status q = 400)"

subsection \<open>Strings\<close>

text \<open>
  Query parameters are taken as ASCII text; on it \<open>String.prototype.toUpperCase\<close> maps
  \<open>a\<close>..\<open>z\<close> to \<open>A\<close>..\<open>Z\<close> and leaves every other character alone.
\<close>

definition upper_char :: "char \<Rightarrow> char" where
  "upper_char c =
     (case map_of (zip ''abcdefghijklmnopqrstuvwxyz'' ''ABCDEFGHIJKLMNOPQRSTUVWXYZ'') c of
        None \<Rightarrow> c
      | Some u \<Rightarrow> u)"

definition toUpperCase :: "string \<Rightarrow> string" where
  "toUpperCase s = map upper_char s"

text \<open>\<open>Array.prototype.join\<close> on an array of strings.\<close>

fun join :: "string \<Rightarrow> string list \<Rightarrow> string" where
  "join sep [] = []"
| "join sep [x] = x"
| "join sep (x # y # ys) = x @ sep @ join sep (y # ys)"

text \<open>A non-negative integer inside a template literal: its decimal digits.\<close>

definition digit_char :: "nat \<Rightarrow> char" where
  "digit_char d = ''0123456789'' ! d"

function show_nat :: "nat \<Rightarrow> string" where
  "show_nat n = (if n < 10 then [digit_char n] else show_nat (n div 10) @ [digit_char (n mod 10)])"
  by pat_completeness auto
termination
  by (relation "measure (\<lambda>n. n)") auto

declare show_nat.simps [simp del]

subsection \<open>Constants\<close>

definition ALLOWED :: "string set" where
  "ALLOWED = {''INCOME_STATEMENT'', ''BALANCE_SHEET'', ''CASH_FLOW'', ''OVERVIEW''}"

text \<open>72h for all fundamentals, plus 24h stale-while-revalidate.\<close>

definition TTL_MAP :: "string \<rightharpoonup> nat" where
  "TTL_MAP =
     [''INCOME_STATEMENT'' \<mapsto> 86400 * 3, ''BALANCE_SHEET'' \<mapsto> 86400 * 3,
      ''CASH_FLOW'' \<mapsto> 86400 * 3, ''OVERVIEW'' \<mapsto> 86400 * 3]"

definition DEFAULT_TTL :: nat where
  "DEFAULT_TTL = 86400 * 3"

definition STALE_WHILE_REVALIDATE :: nat where
  "STALE_WHILE_REVALIDATE = 86400"

subsection \<open>Responses\<close>

text \<open>
  A \<open>Response\<close>: status, header list, and the JSON value whose serialisation is the
  body text. \<open>clone()\<close> of an unread response is a response with the same three parts.
\<close>

record response =
  resp_status :: nat
  resp_headers :: "(string \<times> string) list"
  resp_body :: json

text \<open>\<open>Headers.prototype.set\<close>: overwrite the header if it is there, append it otherwise.\<close>

definition set_header :: "(string \<times> string) list \<Rightarrow> string \<Rightarrow> string \<Rightarrow> (string \<times> string) list" where
  "set_header hs k v =
     (if k \<in> fst ` set hs then map (\<lambda>(k', v'). if k' = k then (k', v) else (k', v')) hs
      else hs @ [(k, v)])"

definition cors :: "string \<Rightarrow> (string \<times> string) list" where
  "cors origin =
     [(''Access-Control-Allow-Origin'', if origin = [] then ''*'' else origin),
      (''Access-Control-Allow-Methods'', ''GET, OPTIONS''),
      (''Access-Control-Allow-Headers'', ''Content-Type''),
      (''Vary'', ''Origin'')]"

definition json :: "json \<Rightarrow> nat \<Rightarrow> string \<Rightarrow> (string \<times> string) list \<Rightarrow> response" where
  "json obj st origin extra =
     \<lparr>resp_status = st,
      resp_headers = [(''content-type'', ''application/json; charset=utf-8'')] @ cors origin @ extra,
      resp_body = obj\<rparr>"

definition cache_control :: "nat \<Rightarrow> string" where
  "cache_control ttl =
     ''public, max-age='' @ show_nat ttl @ '', stale-while-revalidate=''
       @ show_nat STALE_WHILE_REVALIDATE"

definition wrapOk :: "json \<Rightarrow> nat \<Rightarrow> string \<Rightarrow> (string \<times> string) list \<Rightarrow> response" where
  "wrapOk body ttl origin headersExtra =
     \<lparr>resp_status = 200,
      resp_headers =
        [(''content-type'', ''application/json; charset=utf-8''),
         (''cache-control'', cache_control ttl)] @ cors origin @ headersExtra,
      resp_body = body\<rparr>"

definition wrap429 :: "json \<Rightarrow> string \<Rightarrow> string \<Rightarrow> response" where
  "wrap429 detail origin knd =
     json (JObj [(''error'', JStr ''Alpha Vantage''), (''detail'', detail), (''kind'', JStr knd)])
       429 origin [(''Retry-After'', ''65'')]"

definition cacheKeyStr :: "string list \<Rightarrow> string" where
  "cacheKeyStr parts = ''https://alpha-proxy/v3/'' @ join ''/'' parts"

subsection \<open>The world of one run\<close>

text \<open>
  The inbound request as the handler reads it: \<open>new URL(request.url).origin\<close> and the four
  query parameters, \<open>None\<close> where \<open>searchParams.get\<close> returns \<open>null\<close>.
\<close>

record request =
  url_origin :: string
  param_function :: "string option"
  param_symbol :: "string option"
  param_bundle :: "string option"
  param_nocache :: "string option"

record env =
  ALPHA_API_KEY :: "string option"

text \<open>The upstream URL \<open>https://www.alphavantage.co/query?function=..&symbol=..&apikey=..\<close>.\<close>

record upstream_url =
  u_function :: string
  u_symbol :: string
  u_apikey :: string

text \<open>
  A body text, by what \<open>JSON.parse\<close> makes of it: the serialisation of a value, or a text
  on which it throws.
\<close>

datatype body_text = JsonText json | OtherText string

text \<open>
  What the provider does with one outbound call: the \<open>fetch\<close> is rejected, or it yields a
  status and a body text.
\<close>

datatype net_reply = NetworkError | HttpReply nat body_text

text \<open>
  What the handler cannot choose: the provider's reply to the \<open>i\<close>-th outbound call, and
  the value \<open>Math.random()\<close> returns (a number in \<open>[0, 1)\<close>).
\<close>

record outside =
  reply :: "nat \<Rightarrow> net_reply"
  random :: rat

datatype exn = FetchFailed

text \<open>What one run does to the outside, in order: an outbound call, or a timer delay (ms).\<close>

datatype event = Fetch upstream_url | Sleep nat

fun fetches :: "event list \<Rightarrow> upstream_url list" where
  "fetches [] = []"
| "fetches (Fetch u # es) = u # fetches es"
| "fetches (Sleep d # es) = fetches es"

text \<open>
  What the handler reads and writes: the edge cache (\<open>caches.default\<close>), the module-level
  map \<open>inflight\<close> (a pending promise stands as the outcome it settles to), and the trace
  of what has been done so far.

  The edge cache is keyed by requests: the handler hands it \<open>new Request(s, { method: "GET" })\<close>
  for a string \<open>s\<close>, and the platform's URL parser normalises \<open>s\<close> on the way (it resolves
  dot segments, percent-encodes, and more). \<open>request_url s\<close> is the URL that request
  carries; the parser is the platform's, not the handler's, so it is a parameter of the
  world, and two strings with the same \<open>request_url\<close> name the same cache entry. The map
  \<open>inflight\<close> is a JavaScript \<open>Map\<close> keyed by the strings themselves.
\<close>

record world =
  cache :: "string \<rightharpoonup> response"
  inflight :: "string \<rightharpoonup> exn + response"
  trace :: "event list"
  request_url :: "string \<Rightarrow> string"

record fetched =
  ok :: bool
  http_status :: nat
  data :: json
  body_txt :: body_text

text \<open>
  \<^verbatim>\<open>
  async function fetchOnce(url) {
    const r = await fetch(url, { cf: { cacheEverything: true, cacheTtl: 0 }, headers: {..} });
    const txt = await r.text();
    let data = null;
    try { data = JSON.parse(txt); } catch {}
    return { ok: r.ok, status: r.status, data, txt };
  }
  \<close>
  \<open>r.ok\<close> is the Fetch standard's "status in 200..299". \<open>fetched_of\<close> is what the function
  makes of the provider's reply; the reply is the one to the next outbound call.
\<close>

definition fetched_of :: "net_reply \<Rightarrow> exn + fetched" where
  "fetched_of r =
     (case r of
        NetworkError \<Rightarrow> Inl FetchFailed
      | HttpReply st t \<Rightarrow>
          Inr \<lparr>ok = (200 \<le> st \<and> st \<le> 299), http_status = st,
               data = (case t of JsonText j \<Rightarrow> j | OtherText x \<Rightarrow> JNull), body_txt = t\<rparr>)"

definition fetchOnce :: "outside \<Rightarrow> upstream_url \<Rightarrow> world \<Rightarrow> (exn + fetched) \<times> world" where
  "fetchOnce out url w =
     (fetched_of (reply out (length (fetches (trace w)))), w\<lparr>trace := trace w @ [Fetch url]\<rparr>)"

text \<open>
  \<open>Promise.all(urls.map(fetchOnce))\<close>: every call is issued, in the order of \<open>urls\<close>; the
  results come in that order; one rejection rejects the whole.
\<close>

fun fetchAll :: "outside \<Rightarrow> upstream_url list \<Rightarrow> world \<Rightarrow> (exn + fetched list) \<times> world" where
  "fetchAll out [] w = (Inr [], w)"
| "fetchAll out (u # us) w =
     (case fetchOnce out u w of (r, w1) \<Rightarrow>
        (case fetchAll out us w1 of (rs, w2) \<Rightarrow>
           (case r of
              Inl e \<Rightarrow> (Inl e, w2)
            | Inr p \<Rightarrow> (case rs of Inl e \<Rightarrow> (Inl e, w2) | Inr ps \<Rightarrow> (Inr (p # ps), w2)))))"

text \<open>\<open>await new Promise(r => setTimeout(r, base + Math.floor(Math.random() * width)))\<close>\<close>

definition backoff :: "outside \<Rightarrow> nat \<Rightarrow> nat \<Rightarrow> nat" where
  "backoff out base width = base + nat \<lfloor>random out * of_nat width\<rfloor>"

definition sleep :: "nat \<Rightarrow> world \<Rightarrow> world" where
  "sleep ms w = w\<lparr>trace := trace w @ [Sleep ms]\<rparr>"

text \<open>\<open>await cache.put(key, out.clone())\<close>\<close>

definition cache_put :: "string \<Rightarrow> response \<Rightarrow> world \<Rightarrow> world" where
  "cache_put key r w = w\<lparr>cache := (cache w)(key \<mapsto> r)\<rparr>"

text \<open>
  \<^verbatim>\<open>
  async function singleFlight(key, fn) {
    if (inflight.has(key)) return inflight.get(key).then(x => x.clone());
    const p = (async () => await fn())();
    inflight.set(key, p);
    try {
      const res = await p;
      return res.clone();
    } finally {
      inflight.delete(key);
    }
  }
  \<close>
\<close>

definition singleFlight ::
  "string \<Rightarrow> (world \<Rightarrow> (exn + response) \<times> world) \<Rightarrow> world \<Rightarrow> (exn + response) \<times> world" where
  "singleFlight key fn w =
     (case inflight w key of
        Some p \<Rightarrow> (p, w)
      | None \<Rightarrow>
          (case fn w of (res, w1) \<Rightarrow>
             (let w2 = w1\<lparr>inflight := (inflight w1)(key \<mapsto> res)\<rparr>
              in (res, w2\<lparr>inflight := (inflight w2)(key := None)\<rparr>))))"

subsection \<open>The handler\<close>

text \<open>\<open>x || ""\<close> on a query parameter.\<close>

definition or_empty :: "string option \<Rightarrow> string" where
  "or_empty x = (case x of None \<Rightarrow> [] | Some v \<Rightarrow> v)"

text \<open>
  A cache hit is served as
  \<^verbatim>\<open>
      const fresh = new Response(hit.body, hit);
      fresh.headers.set("cache-control", `public, max-age=${ttl}, stale-while-revalidate=${..}`);
      fresh.headers.set("x-proxy-cache", "HIT");
      return fresh;
  \<close>
\<close>

definition fresh_hit :: "response \<Rightarrow> nat \<Rightarrow> response" where
  "fresh_hit hit ttl =
     hit\<lparr>resp_headers :=
       set_header (set_header (resp_headers hit) ''cache-control'' (cache_control ttl))
         ''x-proxy-cache'' ''HIT''\<rparr>"

text \<open>
  The producer of the bundle mode, the function handed to \<open>singleFlight\<close>:
  \<^verbatim>\<open>
      let parts = await Promise.all(urls.map(fetchOnce));
      let throttled = parts.some(p => avProblem(p.data, p.status));
      if (throttled) {
        await new Promise(r => setTimeout(r, 1200 + Math.floor(Math.random() * 600)));
        parts = await Promise.all(urls.map(fetchOnce));
        throttled = parts.some(p => avProblem(p.data, p.status));
      }
      const ok = parts.every(p => p.ok && !avProblem(p.data, p.status) && p.data);
      if (ok) {
        const payload = JSON.stringify({ income_statement: parts[0].data,
          balance_sheet: parts[1].data, cash_flow: parts[2].data, overview: parts[3].data });
        const out = wrapOk(payload, ttl, origin, { "x-proxy-cache": "MISS-BUNDLE" });
        if (!nocache) await cache.put(bundleKey, out.clone());
        return out;
      }
      return wrap429("Bundle throttled and no cached copy", origin, "bundle");
  \<close>
\<close>

definition leg_problem :: "fetched \<Rightarrow> bool" where
  "leg_problem p = (avProblem (data p) (http_status p) \<noteq> None)"

definition leg_clean :: "fetched \<Rightarrow> bool" where
  "leg_clean p = (ok p \<and> avProblem (data p) (http_status p) = None \<and> truthy (data p))"

text \<open>The end of that producer, from \<open>const ok = parts.every(..)\<close> on.\<close>

definition bundle_verdict ::
  "fetched list \<Rightarrow> nat \<Rightarrow> string \<Rightarrow> bool \<Rightarrow> string \<Rightarrow> world \<Rightarrow> (exn + response) \<times> world" where
  "bundle_verdict parts ttl origin nocache bundleKey w =
     (if list_all leg_clean parts then
        (let payload = JObj [(''income_statement'', data (parts ! 0)),
                             (''balance_sheet'', data (parts ! 1)),
                             (''cash_flow'', data (parts ! 2)),
                             (''overview'', data (parts ! 3))];
             outp = wrapOk payload ttl origin [(''x-proxy-cache'', ''MISS-BUNDLE'')]
         in (Inr outp, if \<not> nocache then cache_put bundleKey outp w else w))
      else
        (Inr (wrap429 (JStr ''Bundle throttled and no cached copy'') origin ''bundle''), w))"

definition bundle_producer ::
  "outside \<Rightarrow> upstream_url list \<Rightarrow> nat \<Rightarrow> string \<Rightarrow> bool \<Rightarrow> string \<Rightarrow> world
     \<Rightarrow> (exn + response) \<times> world" where
  "bundle_producer out urls ttl origin nocache bundleKey w =
     (case fetchAll out urls w of
        (Inl e, w1) \<Rightarrow> (Inl e, w1)
      | (Inr parts1, w1) \<Rightarrow>
          (case (if list_ex leg_problem parts1
                 then fetchAll out urls (sleep (backoff out 1200 600) w1)
                 else (Inr parts1, w1)) of
             (Inl e, w2) \<Rightarrow> (Inl e, w2)
           | (Inr parts, w2) \<Rightarrow> bundle_verdict parts ttl origin nocache bundleKey w2))"

text \<open>
  The producer of the per-function mode:
  \<^verbatim>\<open>
      let { ok, status, data, txt } = await fetchOnce(upstream.toString());
      let problem = avProblem(data, status);
      if (problem) {
        await new Promise(r => setTimeout(r, 1000 + Math.floor(Math.random() * 500)));
        ({ ok, status, data, txt } = await fetchOnce(upstream.toString()));
        problem = avProblem(data, status);
      }
      if (ok && !problem && data) {
        const out = wrapOk(JSON.stringify(data), ttl, origin, { "x-proxy-cache": "MISS" });
        if (!nocache) await cache.put(cacheKey, out.clone());
        return out;
      }
      return wrap429(problem ? problem.msg : `Upstream ${status}`, origin,
                     problem ? problem.kind : "upstream");
  \<close>
\<close>

text \<open>The end of that producer, from \<open>if (ok && !problem && data)\<close> on.\<close>

definition single_verdict ::
  "fetched \<Rightarrow> nat \<Rightarrow> string \<Rightarrow> bool \<Rightarrow> string \<Rightarrow> world \<Rightarrow> (exn + response) \<times> world" where
  "single_verdict f ttl origin nocache cacheKey w =
     (let problem = avProblem (data f) (http_status f) in
      if ok f \<and> problem = None \<and> truthy (data f) then
        (let outp = wrapOk (data f) ttl origin [(''x-proxy-cache'', ''MISS'')]
         in (Inr outp, if \<not> nocache then cache_put cacheKey outp w else w))
      else
        (Inr (wrap429
                (case problem of
                   Some p \<Rightarrow> msg p
                 | None \<Rightarrow> JStr (''Upstream '' @ show_nat (http_status f)))
                origin
                (case problem of Some p \<Rightarrow> kind p | None \<Rightarrow> ''upstream'')),
         w))"

definition single_producer ::
  "outside \<Rightarrow> upstream_url \<Rightarrow> nat \<Rightarrow> string \<Rightarrow> bool \<Rightarrow> string \<Rightarrow> world
     \<Rightarrow> (exn + response) \<times> world" where
  "single_producer out upstream ttl origin nocache cacheKey w =
     (case fetchOnce out upstream w of
        (Inl e, w1) \<Rightarrow> (Inl e, w1)
      | (Inr f1, w1) \<Rightarrow>
          (case (if avProblem (data f1) (http_status f1) \<noteq> None
                 then fetchOnce out upstream (sleep (backoff out 1000 500) w1)
                 else (Inr f1, w1)) of
             (Inl e, w2) \<Rightarrow> (Inl e, w2)
           | (Inr f, w2) \<Rightarrow> single_verdict f ttl origin nocache cacheKey w2))"

text \<open>
  The bundle mode of \<open>onRequestGet\<close> (the branch \<open>if (bundle) { .. }\<close>), with
  \<open>const bundleKey = new Request(cacheKeyStr(["BUNDLE", symbol]), { method: "GET" })\<close> and
  \<open>const flightKey = cacheKeyStr(["BUNDLE-FETCH", symbol])\<close>.
\<close>

definition bundle_mode ::
  "outside \<Rightarrow> string \<Rightarrow> string \<Rightarrow> string \<Rightarrow> bool \<Rightarrow> world \<Rightarrow> (exn + response) \<times> world" where
  "bundle_mode out apikey origin symbol nocache w =
     (let ttl = DEFAULT_TTL;
          bundleKey = request_url w (cacheKeyStr [''BUNDLE'', symbol])
      in case (if \<not> nocache then cache w bundleKey else None) of
           Some hit \<Rightarrow> (Inr (fresh_hit hit ttl), w)
         | None \<Rightarrow>
             (let upstreamFor = (\<lambda>f. \<lparr>u_function = f, u_symbol = symbol, u_apikey = apikey\<rparr>);
                  urls = map upstreamFor
                           [''INCOME_STATEMENT'', ''BALANCE_SHEET'', ''CASH_FLOW'', ''OVERVIEW''];
                  flightKey = cacheKeyStr [''BUNDLE-FETCH'', symbol]
              in singleFlight flightKey
                   (bundle_producer out urls ttl origin nocache bundleKey) w))"

text \<open>
  The per-function mode of \<open>onRequestGet\<close> (the code after the bundle branch), with
  \<open>const cacheKey = new Request(cacheKeyStr([fn, symbol]), { method: "GET" })\<close> and
  \<open>const flightKey = cacheKeyStr(["FETCH", fn, symbol])\<close>.
\<close>

definition per_function_mode ::
  "outside \<Rightarrow> string \<Rightarrow> string \<Rightarrow> string \<Rightarrow> string \<Rightarrow> bool \<Rightarrow> world
     \<Rightarrow> (exn + response) \<times> world" where
  "per_function_mode out apikey origin fn symbol nocache w =
     (if fn = [] \<or> fn \<notin> ALLOWED then
        (Inr (json (JObj [(''error'', JStr ''Bad request: missing/invalid function.'')])
                400 origin []), w)
      else
        (let ttl = (case TTL_MAP fn of Some t \<Rightarrow> t | None \<Rightarrow> DEFAULT_TTL);
             upstream = \<lparr>u_function = fn, u_symbol = symbol, u_apikey = apikey\<rparr>;
             cacheKey = request_url w (cacheKeyStr [fn, symbol])
         in case (if \<not> nocache then cache w cacheKey else None) of
              Some hit \<Rightarrow> (Inr (fresh_hit hit ttl), w)
            | None \<Rightarrow>
                (let flightKey = cacheKeyStr [''FETCH'', fn, symbol]
                 in singleFlight flightKey
                      (single_producer out upstream ttl origin nocache cacheKey) w)))"

text \<open>
  \<^verbatim>\<open>
  export async function onRequestGet({ request, env }) {
    const url = new URL(request.url);
    const origin = url.origin;
    const fn = (url.searchParams.get("function") || "").toUpperCase();
    const bundle = url.searchParams.get("bundle") === "1";
    const symbol = (url.searchParams.get("symbol") || "").toUpperCase();
    const nocache = url.searchParams.get("nocache") === "1";
    if (!env.ALPHA_API_KEY) {
      return json({ error: "ALPHA_API_KEY is not configured." }, 500, origin);
    }
    if (!symbol) {
      return json({ error: "Bad request: missing symbol." }, 400, origin);
    }
    if (bundle) { .. }
    ..
  }
  \<close>
\<close>

definition onRequestGet ::
  "outside \<Rightarrow> request \<Rightarrow> env \<Rightarrow> world \<Rightarrow> (exn + response) \<times> world" where
  "onRequestGet out request env w =
     (let origin = url_origin request;
          fn = toUpperCase (or_empty (param_function request));
          bundle = (param_bundle request = Some ''1'');
          symbol = toUpperCase (or_empty (param_symbol request));
          nocache = (param_nocache request = Some ''1'')
      in if or_empty (ALPHA_API_KEY env) = [] then
           (Inr (json (JObj [(''error'', JStr ''ALPHA_API_KEY is not configured.'')])
                   500 origin []), w)
         else if symbol = [] then
           (Inr (json (JObj [(''error'', JStr ''Bad request: missing symbol.'')])
                   400 origin []), w)
         else if bundle then
           bundle_mode out (or_empty (ALPHA_API_KEY env)) origin symbol nocache w
         else
           per_function_mode out (or_empty (ALPHA_API_KEY env)) origin fn symbol nocache w)"

subsection \<open>\<open>singleFlight\<close> among concurrent callers\<close>

text \<open>
  An execution context runs one job at a time, each from its start to its next
  suspension. A call \<open>singleFlight(key, fn)\<close> is two jobs.
  \<^item> The first runs from \<open>if (inflight.has(key))\<close> to the first suspension. With the key in
    the map, the caller is left with \<open>inflight.get(key).then(x => x.clone())\<close>. Otherwise
    \<open>fn\<close> is invoked, its promise \<open>p\<close> is stored under the key, and the caller awaits \<open>p\<close>
    inside the \<open>try\<close> block.
  \<^item> The second runs when the awaited promise has settled. The caller in \<open>then\<close> receives
    \<open>x.clone()\<close> or the rejection. The caller in the \<open>try\<close> block receives \<open>res.clone()\<close>
    or the rejection, and its \<open>finally\<close> block deletes the key.

  In between, the producer behind \<open>p\<close> completes: \<open>p\<close> is fulfilled with the \<open>Response\<close> the
  producer returned, or rejected. A \<open>Response\<close> is an object with an identity, its place in
  \<open>objects\<close>; \<open>clone()\<close> makes a new object with the same status, headers and body.
\<close>

datatype promise = Pending | Fulfilled nat | Rejected exn

datatype waiter = InTry string nat | InThen nat

record isolate =
  pending :: "string \<rightharpoonup> nat"
  promises :: "promise list"
  objects :: "response list"
  invocations :: "string list"
  suspended :: "nat \<rightharpoonup> waiter"
  returned :: "nat \<rightharpoonup> exn + nat"

text \<open>The first job of the call that caller \<open>c\<close> makes with \<open>key\<close>.\<close>

definition sf_enter :: "string \<Rightarrow> nat \<Rightarrow> isolate \<Rightarrow> isolate" where
  "sf_enter key c s =
     (case pending s key of
        Some p \<Rightarrow> s\<lparr>suspended := (suspended s)(c \<mapsto> InThen p)\<rparr>
      | None \<Rightarrow>
          s\<lparr>invocations := invocations s @ [key],
            promises := promises s @ [Pending],
            pending := (pending s)(key \<mapsto> length (promises s)),
            suspended := (suspended s)(c \<mapsto> InTry key (length (promises s)))\<rparr>)"

text \<open>The producer behind promise \<open>p\<close> completes, with a response or with an exception.\<close>

definition sf_settle :: "nat \<Rightarrow> exn + response \<Rightarrow> isolate \<Rightarrow> isolate" where
  "sf_settle p outcome s =
     (if p < length (promises s) \<and> promises s ! p = Pending then
        (case outcome of
           Inl e \<Rightarrow> s\<lparr>promises := (promises s)[p := Rejected e]\<rparr>
         | Inr r \<Rightarrow>
             s\<lparr>objects := objects s @ [r],
               promises := (promises s)[p := Fulfilled (length (objects s))]\<rparr>)
      else s)"

text \<open>What a caller suspended on promise \<open>p\<close> receives once \<open>p\<close> has settled.\<close>

definition sf_receive :: "nat \<Rightarrow> nat \<Rightarrow> isolate \<Rightarrow> isolate" where
  "sf_receive c p s =
     (case promises s ! p of
        Pending \<Rightarrow> s
      | Fulfilled x \<Rightarrow>
          s\<lparr>objects := objects s @ [objects s ! x],
            returned := (returned s)(c \<mapsto> Inr (length (objects s))),
            suspended := (suspended s)(c := None)\<rparr>
      | Rejected e \<Rightarrow>
          s\<lparr>returned := (returned s)(c \<mapsto> Inl e), suspended := (suspended s)(c := None)\<rparr>)"

text \<open>The second job of caller \<open>c\<close>; nothing happens while its promise is pending.\<close>

definition sf_leave :: "nat \<Rightarrow> isolate \<Rightarrow> isolate" where
  "sf_leave c s =
     (case suspended s c of
        None \<Rightarrow> s
      | Some (InThen p) \<Rightarrow>
          if p < length (promises s) then sf_receive c p s else s
      | Some (InTry key p) \<Rightarrow>
          if p < length (promises s) \<and> promises s ! p \<noteq> Pending
          then (sf_receive c p s)\<lparr>pending := (pending s)(key := None)\<rparr>
          else s)"

datatype job = Enter string nat | Settle nat "exn + response" | Leave nat

fun step :: "job \<Rightarrow> isolate \<Rightarrow> isolate" where
  "step (Enter key c) s = sf_enter key c s"
| "step (Settle p outcome) s = sf_settle p outcome s"
| "step (Leave c) s = sf_leave c s"

fun run :: "job list \<Rightarrow> isolate \<Rightarrow> isolate" where
  "run [] s = s"
| "run (j # js) s = run js (step j s)"

text \<open>An execution context in which no call has been made yet.\<close>

definition idle :: isolate where
  "idle = \<lparr>pending = Map.empty, promises = [], objects = [], invocations = [],
           suspended = Map.empty, returned = Map.empty\<rparr>"

subsection \<open>Vocabulary of the properties\<close>

text \<open>A parsed body that carries a throttle notice the classifier sees.\<close>

definition throttle_notice :: "json \<Rightarrow> bool" where
  "throttle_notice d = (prop_truthy d ''Note'' \<or> prop_truthy d ''Information'')"

text \<open>What \<open>Promise.all\<close> makes of settled outcomes (there is one kind of rejection).\<close>

fun collect :: "(exn + 'a) list \<Rightarrow> exn + 'a list" where
  "collect [] = Inr []"
| "collect (x # xs) =
     (case x of
        Inl e \<Rightarrow> Inl e
      | Inr p \<Rightarrow> (case collect xs of Inl e \<Rightarrow> Inl e | Inr ps \<Rightarrow> Inr (p # ps)))"

text \<open>The outcome of a round of \<open>k\<close> outbound calls of which the first is call number \<open>n\<close>.\<close>

definition round_of :: "outside \<Rightarrow> nat \<Rightarrow> nat \<Rightarrow> exn + fetched list" where
  "round_of out n k = collect (map (\<lambda>i. fetched_of (reply out (n + i))) [0..<k])"

text \<open>
  The round whose legs the bundle producer judges: the first round, unless one of its legs
  reports a problem; the second round then.
\<close>

definition judged_round :: "outside \<Rightarrow> nat \<Rightarrow> nat \<Rightarrow> exn + fetched list" where
  "judged_round out n k =
     (case round_of out n k of
        Inl e \<Rightarrow> Inl e
      | Inr ps \<Rightarrow> if list_ex leg_problem ps then round_of out (n + k) k else Inr ps)"

text \<open>The four-leg object of a bundle.\<close>

definition four_legs :: "fetched list \<Rightarrow> json" where
  "four_legs parts =
     JObj [(''income_statement'', data (parts ! 0)), (''balance_sheet'', data (parts ! 1)),
           (''cash_flow'', data (parts ! 2)), (''overview'', data (parts ! 3))]"

text \<open>The number of outbound calls made so far.\<close>

definition fetch_count :: "world \<Rightarrow> nat" where
  "fetch_count w = length (fetches (trace w))"

text \<open>A provider that answers the \<open>i\<close>-th outbound call with the \<open>i\<close>-th reply of a script.\<close>

definition script :: "net_reply list \<Rightarrow> nat \<Rightarrow> net_reply" where
  "script rs i = (if i < length rs then rs ! i else NetworkError)"

text \<open>
  A world in which nothing is cached, nothing is pending and nothing has happened. Its
  parser leaves every string as it is, as the platform's does with the keys of the
  examples below (upper-case letters and digits after the fixed prefix).
\<close>

definition blank :: world where
  "blank = \<lparr>cache = Map.empty, inflight = Map.empty, trace = [], request_url = id\<rparr>"

section \<open>Properties\<close>

subsection \<open>Auxiliary facts\<close>

lemma fetches_append: "fetches (xs @ ys) = fetches xs @ fetches ys"
  by (induction xs rule: fetches.induct) simp_all

lemma fetch_count_fetch: "fetch_count (w\<lparr>trace := trace w @ [Fetch u]\<rparr>) = Suc (fetch_count w)"
  by (simp add: fetch_count_def fetches_append)

lemma fetch_count_sleep: "fetch_count (sleep d w) = fetch_count w"
  by (simp add: fetch_count_def fetches_append sleep_def)

lemma map_upt_Suc': "map f [0..<Suc k] = f 0 # map (\<lambda>i. f (Suc i)) [0..<k]"
proof -
  have "[0..<Suc k] = 0 # map Suc [0..<k]"
    by (simp only: map_Suc_upt upt_conv_Cons [of 0 "Suc k"] zero_less_Suc)
  then show ?thesis by (simp only: list.map map_map comp_def)
qed

lemma round_of_0: "round_of out n 0 = Inr []"
  by (simp add: round_of_def)

lemma round_of_Suc:
  "round_of out n (Suc k) =
     (case fetched_of (reply out n) of
        Inl e \<Rightarrow> Inl e
      | Inr p \<Rightarrow> (case round_of out (Suc n) k of Inl e \<Rightarrow> Inl e | Inr ps \<Rightarrow> Inr (p # ps)))"
  unfolding round_of_def map_upt_Suc' by (simp cong: sum.case_cong)

lemma fetchAll_eq:
  "fetchAll out us w =
     (round_of out (fetch_count w) (length us), w\<lparr>trace := trace w @ map Fetch us\<rparr>)"
proof (induction us arbitrary: w)
  case Nil
  then show ?case by (simp add: round_of_0)
next
  case (Cons u us)
  show ?case
    by (simp add: Cons.IH fetchOnce_def fetch_count_def fetches_append round_of_Suc
        split: sum.splits)
qed

lemma toUpperCase_Nil_iff: "toUpperCase s = [] \<longleftrightarrow> s = []"
  by (simp add: toUpperCase_def)

lemma json_status: "resp_status (json obj st origin extra) = st"
  by (simp add: json_def)

lemma backoff_window:
  assumes "0 \<le> random out" "random out < 1"
  shows "base \<le> backoff out base width \<and> (0 < width \<longrightarrow> backoff out base width < base + width)"
proof -
  have nn: "0 \<le> random out * of_nat width"
    using assms by simp
  have "0 < width \<Longrightarrow> random out * of_nat width < of_nat width"
    using assms by simp
  then have "0 < width \<Longrightarrow> \<lfloor>random out * of_nat width\<rfloor> < int width"
    by (simp add: floor_less_iff)
  then have "0 < width \<Longrightarrow> nat \<lfloor>random out * of_nat width\<rfloor> < width"
    using nn by linarith
  then show ?thesis by (auto simp add: backoff_def)
qed

lemma single_producer_eq:
  "single_producer out u ttl origin nocache key w =
     (case fetched_of (reply out (fetch_count w)) of
        Inl e \<Rightarrow> (Inl e, w\<lparr>trace := trace w @ [Fetch u]\<rparr>)
      | Inr f1 \<Rightarrow>
          if avProblem (data f1) (http_status f1) = None
          then single_verdict f1 ttl origin nocache key (w\<lparr>trace := trace w @ [Fetch u]\<rparr>)
          else
            (case fetched_of (reply out (Suc (fetch_count w))) of
               Inl e \<Rightarrow>
                 (Inl e, w\<lparr>trace := trace w @ [Fetch u, Sleep (backoff out 1000 500), Fetch u]\<rparr>)
             | Inr f2 \<Rightarrow>
                 single_verdict f2 ttl origin nocache key
                   (w\<lparr>trace := trace w @ [Fetch u, Sleep (backoff out 1000 500), Fetch u]\<rparr>)))"
  by (simp add: single_producer_def fetchOnce_def fetch_count_def sleep_def fetches_append
      split: sum.splits)

lemma fetches_map_Fetch: "fetches (map Fetch us) = us"
  by (induction us) simp_all

lemma bundle_producer_eq:
  "bundle_producer out us ttl origin nocache key w =
     (case round_of out (fetch_count w) (length us) of
        Inl e \<Rightarrow> (Inl e, w\<lparr>trace := trace w @ map Fetch us\<rparr>)
      | Inr parts1 \<Rightarrow>
          if \<not> list_ex leg_problem parts1
          then bundle_verdict parts1 ttl origin nocache key (w\<lparr>trace := trace w @ map Fetch us\<rparr>)
          else
            (case round_of out (fetch_count w + length us) (length us) of
               Inl e \<Rightarrow>
                 (Inl e, w\<lparr>trace := trace w @ map Fetch us @ Sleep (backoff out 1200 600) # map Fetch us\<rparr>)
             | Inr parts \<Rightarrow>
                 bundle_verdict parts ttl origin nocache key
                   (w\<lparr>trace := trace w @ map Fetch us @ Sleep (backoff out 1200 600) # map Fetch us\<rparr>)))"
  by (simp add: bundle_producer_def fetchAll_eq fetch_count_def sleep_def fetches_append
      fetches_map_Fetch split: sum.splits)

lemma single_producer_nocache:
  "single_producer out u ttl origin True key (w\<lparr>cache := c\<rparr>) =
     apsnd (\<lambda>v. v\<lparr>cache := c\<rparr>) (single_producer out u ttl origin True key w)"
  by (simp add: single_producer_eq fetch_count_def single_verdict_def Let_def
      split: sum.splits)

lemma bundle_producer_nocache:
  "bundle_producer out us ttl origin True key (w\<lparr>cache := c\<rparr>) =
     apsnd (\<lambda>v. v\<lparr>cache := c\<rparr>) (bundle_producer out us ttl origin True key w)"
  by (simp add: bundle_producer_eq fetch_count_def bundle_verdict_def Let_def
      split: sum.splits)

lemma singleFlight_cache_update:
  assumes "\<And>w. fn (w\<lparr>cache := c\<rparr>) = apsnd (\<lambda>v. v\<lparr>cache := c\<rparr>) (fn w)"
  shows "singleFlight key fn (w\<lparr>cache := c\<rparr>) =
           apsnd (\<lambda>v. v\<lparr>cache := c\<rparr>) (singleFlight key fn w)"
  by (simp add: singleFlight_def assms split: option.splits prod.splits)

lemma onRequestGet_nocache:
  assumes "param_nocache rq = Some ''1''"
  shows "onRequestGet out rq env (w\<lparr>cache := c\<rparr>) =
           apsnd (\<lambda>v. v\<lparr>cache := c\<rparr>) (onRequestGet out rq env w)"
  using assms
  by (simp add: onRequestGet_def bundle_mode_def per_function_mode_def Let_def
      singleFlight_cache_update single_producer_nocache bundle_producer_nocache)

lemma prop_truthy_object: "prop_truthy d k \<Longrightarrow> truthy d \<and> typeof_object d"
  by (cases d) (simp_all add: prop_truthy_def)

lemma single_verdict_trace: "trace (snd (single_verdict f ttl origin nocache key w)) = trace w"
  by (simp add: single_verdict_def cache_put_def Let_def)

lemma single_producer_trace:
  "trace (snd (single_producer out u ttl origin nocache key w)) =
     (case fetched_of (reply out (fetch_count w)) of
        Inl e \<Rightarrow> trace w @ [Fetch u]
      | Inr f \<Rightarrow>
          if avProblem (data f) (http_status f) = None then trace w @ [Fetch u]
          else trace w @ [Fetch u, Sleep (backoff out 1000 500), Fetch u])"
  by (simp add: single_producer_eq single_verdict_trace split: sum.splits)

lemma singleFlight_trace:
  "trace (snd (singleFlight key fn w)) =
     (case inflight w key of Some p \<Rightarrow> trace w | None \<Rightarrow> trace (snd (fn w)))"
  by (simp add: singleFlight_def split: option.splits prod.splits)

lemma per_function_mode_fetch_count:
  "fetch_count (snd (per_function_mode out apikey origin fn symbol nocache w)) \<le> fetch_count w + 2"
  by (simp add: per_function_mode_def Let_def singleFlight_trace single_producer_trace
      fetch_count_def fetches_append split: option.splits sum.splits)

lemma throttle_notice_problem:
  assumes "throttle_notice d"
  shows "avProblem d st \<noteq> None \<and> rate_limited (avProblem d st)"
proof -
  have "truthy d \<and> typeof_object d"
    using assms prop_truthy_object by (auto simp add: throttle_notice_def)
  then show ?thesis
    using assms by (auto simp add: avProblem_def throttle_notice_def rate_limited_def)
qed

lemma leg_clean_no_notice: "leg_clean p \<Longrightarrow> \<not> throttle_notice (data p)"
  using throttle_notice_problem [of "data p" "http_status p"] by (auto simp add: leg_clean_def)

lemma round_of_length: "round_of out n k = Inr ps \<Longrightarrow> length ps = k"
proof (induction k arbitrary: n ps)
  case 0
  then show ?case by (simp add: round_of_0)
next
  case (Suc k)
  then show ?case by (auto simp add: round_of_Suc split: sum.splits)
qed

lemma single_verdict_cache:
  "cache (snd (single_verdict f ttl origin nocache key w)) k = Some r \<Longrightarrow> cache w k \<noteq> Some r
   \<Longrightarrow> resp_body r = data f \<and> leg_clean f"
  by (auto simp add: single_verdict_def cache_put_def Let_def wrapOk_def leg_clean_def
      split: if_splits)

lemma single_producer_cache:
  assumes "cache (snd (single_producer out u ttl origin nocache key w)) k = Some r"
    and "cache w k \<noteq> Some r"
  shows "\<exists>f. resp_body r = data f \<and> leg_clean f"
  using assms
  by (auto simp add: single_producer_eq split: sum.splits if_splits dest!: single_verdict_cache)

lemma singleFlight_cache:
  "cache (snd (singleFlight key fn w)) =
     (case inflight w key of Some p \<Rightarrow> cache w | None \<Rightarrow> cache (snd (fn w)))"
  by (simp add: singleFlight_def split: option.splits prod.splits)

lemma per_function_mode_cache:
  assumes "cache (snd (per_function_mode out apikey origin fn symbol nocache w)) k = Some r"
    and "cache w k \<noteq> Some r"
  shows "\<exists>f. resp_body r = data f \<and> leg_clean f"
  using assms
  by (auto simp add: per_function_mode_def Let_def singleFlight_cache
      split: if_splits option.splits dest: single_producer_cache)

lemma bundle_verdict_cache:
  assumes "cache (snd (bundle_verdict ps ttl origin nocache key w)) k = Some r"
    and "cache w k \<noteq> Some r"
  shows "resp_body r = JObj [(''income_statement'', data (ps ! 0)), (''balance_sheet'', data (ps ! 1)),
                             (''cash_flow'', data (ps ! 2)), (''overview'', data (ps ! 3))]
         \<and> list_all leg_clean ps"
  using assms
  by (auto simp add: bundle_verdict_def cache_put_def Let_def wrapOk_def split: if_splits)

lemma bundle_producer_cache:
  assumes "cache (snd (bundle_producer out us ttl origin nocache key w)) k = Some r"
    and "cache w k \<noteq> Some r"
  shows "\<exists>ps. length ps = length us \<and> list_all leg_clean ps \<and>
           resp_body r = JObj [(''income_statement'', data (ps ! 0)), (''balance_sheet'', data (ps ! 1)),
                               (''cash_flow'', data (ps ! 2)), (''overview'', data (ps ! 3))]"
  using assms
  by (auto simp add: bundle_producer_eq split: sum.splits if_splits
      dest!: bundle_verdict_cache dest: round_of_length)

lemma bundle_mode_cache:
  assumes "cache (snd (bundle_mode out apikey origin symbol nocache w)) k = Some r"
    and "cache w k \<noteq> Some r"
  shows "\<exists>ps. length ps = 4 \<and> list_all leg_clean ps \<and>
           resp_body r = JObj [(''income_statement'', data (ps ! 0)), (''balance_sheet'', data (ps ! 1)),
                               (''cash_flow'', data (ps ! 2)), (''overview'', data (ps ! 3))]"
proof -
  let ?us = "map (\<lambda>f. \<lparr>u_function = f, u_symbol = symbol, u_apikey = apikey\<rparr>)
               [''INCOME_STATEMENT'', ''BALANCE_SHEET'', ''CASH_FLOW'', ''OVERVIEW'']"
  have c: "cache (snd (bundle_producer out ?us DEFAULT_TTL origin nocache
                   (request_url w (cacheKeyStr [''BUNDLE'', symbol])) w)) k = Some r"
    using assms
    by (auto simp add: bundle_mode_def Let_def singleFlight_cache split: if_splits option.splits)
  have "length ?us = 4"
    by simp
  with bundle_producer_cache [OF c assms(2)] show ?thesis
    by (simp only:)
qed


lemma not_notice_bundle_payload:
  "\<not> throttle_notice (JObj [(''income_statement'', a), (''balance_sheet'', b),
                             (''cash_flow'', c), (''overview'', d)])"
  by (simp add: throttle_notice_def prop_truthy_def)

lemma single_verdict_notice:
  assumes "throttle_notice (data f)"
  shows "map_sum id resp_status (fst (single_verdict f ttl origin nocache key w)) = Inr 429
       \<and> snd (single_verdict f ttl origin nocache key w) = w"
  using throttle_notice_problem [OF assms, of "http_status f"]
  by (auto simp add: single_verdict_def Let_def wrap429_def json_status)

lemma bundle_verdict_notice:
  assumes "list_ex (\<lambda>p. throttle_notice (data p)) ps"
  shows "map_sum id resp_status (fst (bundle_verdict ps ttl origin nocache key w)) = Inr 429
       \<and> snd (bundle_verdict ps ttl origin nocache key w) = w"
proof -
  have "\<not> list_all leg_clean ps"
    using assms leg_clean_no_notice by (auto simp add: list_ex_iff list_all_iff)
  then show ?thesis
    by (simp add: bundle_verdict_def wrap429_def json_status)
qed

lemma onRequestGet_cache:
  assumes "cache (snd (onRequestGet out rq env w)) k = Some r" and "cache w k \<noteq> Some r"
  shows "\<not> throttle_notice (resp_body r)
       \<and> (param_bundle rq = Some ''1'' \<longrightarrow>
            (\<exists>ps :: fetched list. length ps = 4 \<and> list_all (\<lambda>p. \<not> throttle_notice (data p)) ps \<and>
               resp_body r = JObj [(''income_statement'', data (ps ! 0)),
                                   (''balance_sheet'', data (ps ! 1)),
                                   (''cash_flow'', data (ps ! 2)),
                                   (''overview'', data (ps ! 3))]))"
proof (cases "param_bundle rq = Some ''1''")
  case True
  with assms have "cache (snd (bundle_mode out (or_empty (ALPHA_API_KEY env)) (url_origin rq)
      (toUpperCase (or_empty (param_symbol rq))) (param_nocache rq = Some ''1'') w)) k = Some r"
    by (auto simp add: onRequestGet_def Let_def split: if_splits)
  from bundle_mode_cache [OF this assms(2)] obtain ps where ps: "length ps = 4"
    "list_all leg_clean ps"
    "resp_body r = JObj [(''income_statement'', data (ps ! 0)), (''balance_sheet'', data (ps ! 1)),
                         (''cash_flow'', data (ps ! 2)), (''overview'', data (ps ! 3))]"
    by blast
  have "list_all (\<lambda>p. \<not> throttle_notice (data p)) ps"
    using ps(2) leg_clean_no_notice by (auto simp add: list_all_iff)
  with ps have "\<exists>ps :: fetched list. length ps = 4 \<and> list_all (\<lambda>p. \<not> throttle_notice (data p)) ps \<and>
               resp_body r = JObj [(''income_statement'', data (ps ! 0)),
                                   (''balance_sheet'', data (ps ! 1)),
                                   (''cash_flow'', data (ps ! 2)),
                                   (''overview'', data (ps ! 3))]"
    by blast
  moreover have "\<not> throttle_notice (resp_body r)"
    by (simp only: ps(3) not_notice_bundle_payload not_False_eq_True)
  ultimately show ?thesis
    by blast
next
  case False
  with assms have "cache (snd (per_function_mode out (or_empty (ALPHA_API_KEY env)) (url_origin rq)
      (toUpperCase (or_empty (param_function rq)))
      (toUpperCase (or_empty (param_symbol rq))) (param_nocache rq = Some ''1'') w)) k = Some r"
    by (auto simp add: onRequestGet_def Let_def split: if_splits)
  from per_function_mode_cache [OF this assms(2)] False show ?thesis
    by (auto dest: leg_clean_no_notice)
qed

lemma bundle_verdict_trace: "trace (snd (bundle_verdict ps ttl origin nocache key w)) = trace w"
  by (simp add: bundle_verdict_def cache_put_def Let_def)

lemma bundle_verdict_world:
  "bundle_verdict ps ttl origin nocache key (w\<lparr>trace := t\<rparr>) =
     apsnd (\<lambda>v. v\<lparr>trace := t\<rparr>) (bundle_verdict ps ttl origin nocache key w)"
  by (simp add: bundle_verdict_def cache_put_def Let_def)

lemma bundle_producer_judged:
  "fst (bundle_producer out us ttl origin nocache key w) =
     (case judged_round out (fetch_count w) (length us) of
        Inl e \<Rightarrow> Inl e
      | Inr ps \<Rightarrow> fst (bundle_verdict ps ttl origin nocache key w))
   \<and> cache (snd (bundle_producer out us ttl origin nocache key w)) =
     (case judged_round out (fetch_count w) (length us) of
        Inl e \<Rightarrow> cache w
      | Inr ps \<Rightarrow> cache (snd (bundle_verdict ps ttl origin nocache key w)))"
  by (simp add: bundle_producer_eq judged_round_def bundle_verdict_world split: sum.splits)

lemma bundle_producer_fetch_count:
  "fetch_count (snd (bundle_producer out us ttl origin nocache key w))
     \<le> fetch_count w + 2 * length us"
  by (simp add: bundle_producer_eq bundle_verdict_trace fetch_count_def fetches_append
      fetches_map_Fetch split: sum.splits)

lemma bundle_verdict_eq:
  "bundle_verdict ps ttl origin nocache key w =
     (if list_all leg_clean ps
      then (Inr (wrapOk (four_legs ps) ttl origin [(''x-proxy-cache'', ''MISS-BUNDLE'')]),
            if nocache then w
            else w\<lparr>cache := (cache w)(key \<mapsto>
                   wrapOk (four_legs ps) ttl origin [(''x-proxy-cache'', ''MISS-BUNDLE'')])\<rparr>)
      else (Inr (wrap429 (JStr ''Bundle throttled and no cached copy'') origin ''bundle''), w))"
  by (simp add: bundle_verdict_def four_legs_def cache_put_def Let_def)

lemma bundle_mode_judged:
  assumes "nocache \<or> cache w (request_url w (cacheKeyStr [''BUNDLE'', symbol])) = None"
    and "inflight w (cacheKeyStr [''BUNDLE-FETCH'', symbol]) = None"
  shows "(case judged_round out (fetch_count w) 4 of
            Inl e \<Rightarrow>
              fst (bundle_mode out apikey origin symbol nocache w) = Inl e
              \<and> cache (snd (bundle_mode out apikey origin symbol nocache w)) = cache w
          | Inr ps \<Rightarrow>
              if list_all leg_clean ps
              then fst (bundle_mode out apikey origin symbol nocache w) =
                     Inr (wrapOk (four_legs ps) DEFAULT_TTL origin [(''x-proxy-cache'', ''MISS-BUNDLE'')])
                   \<and> cache (snd (bundle_mode out apikey origin symbol nocache w)) =
                     (if nocache then cache w
                      else (cache w)(request_url w (cacheKeyStr [''BUNDLE'', symbol]) \<mapsto>
                             wrapOk (four_legs ps) DEFAULT_TTL origin
                               [(''x-proxy-cache'', ''MISS-BUNDLE'')]))
              else fst (bundle_mode out apikey origin symbol nocache w) =
                     Inr (wrap429 (JStr ''Bundle throttled and no cached copy'') origin ''bundle'')
                   \<and> cache (snd (bundle_mode out apikey origin symbol nocache w)) = cache w)
         \<and> fetch_count (snd (bundle_mode out apikey origin symbol nocache w)) \<le> fetch_count w + 8"
proof -
  let ?us = "map (\<lambda>f. \<lparr>u_function = f, u_symbol = symbol, u_apikey = apikey\<rparr>)
               [''INCOME_STATEMENT'', ''BALANCE_SHEET'', ''CASH_FLOW'', ''OVERVIEW'']"
  let ?P = "bundle_producer out ?us DEFAULT_TTL origin nocache
              (request_url w (cacheKeyStr [''BUNDLE'', symbol])) w"
  have len: "length ?us = 4"
    by simp
  have m: "fst (bundle_mode out apikey origin symbol nocache w) = fst ?P
      \<and> cache (snd (bundle_mode out apikey origin symbol nocache w)) = cache (snd ?P)
      \<and> trace (snd (bundle_mode out apikey origin symbol nocache w)) = trace (snd ?P)"
    using assms
    by (auto simp add: bundle_mode_def Let_def singleFlight_def split: prod.splits)
  have fc: "fetch_count (snd (bundle_mode out apikey origin symbol nocache w)) \<le> fetch_count w + 8"
    using bundle_producer_fetch_count [of out ?us DEFAULT_TTL origin nocache
        "request_url w (cacheKeyStr [''BUNDLE'', symbol])" w] m
    by (simp add: fetch_count_def)
  show ?thesis
    using bundle_producer_judged [of out ?us DEFAULT_TTL origin nocache
        "request_url w (cacheKeyStr [''BUNDLE'', symbol])" w] fc
    by (simp only: m len) (simp add: bundle_verdict_eq split: sum.splits)
qed


lemma run_append: "run (js @ ks) s = run ks (run js s)"
  by (induction js arbitrary: s) simp_all

lemma enter_pending:
  assumes "pending s key = Some p"
  shows "sf_enter key c s = s\<lparr>suspended := (suspended s)(c \<mapsto> InThen p)\<rparr>"
  using assms by (simp add: sf_enter_def)

lemma enter_burst:
  assumes "pending s key = Some p"
  shows "run (map (Enter key) cs) s =
           s\<lparr>suspended := (\<lambda>x. if x \<in> set cs then Some (InThen p) else suspended s x)\<rparr>"
  using assms
proof (induction cs arbitrary: s)
  case Nil
  then show ?case by simp
next
  case (Cons c cs)
  have "pending (sf_enter key c s) key = Some p"
    using Cons.prems by (simp add: enter_pending)
  from Cons.IH [OF this] show ?case
    using Cons.prems by (auto simp add: enter_pending intro!: arg_cong [where f = "\<lambda>f. s\<lparr>suspended := f\<rparr>"])
qed

lemma leave_then_fulfilled:
  assumes "suspended s c = Some (InThen p)" and "p < length (promises s)"
    and "promises s ! p = Fulfilled x"
  shows "sf_leave c s =
           s\<lparr>objects := objects s @ [objects s ! x],
             returned := (returned s)(c \<mapsto> Inr (length (objects s))),
             suspended := (suspended s)(c := None)\<rparr>"
  using assms by (simp add: sf_leave_def sf_receive_def)

lemma leave_then_rejected:
  assumes "suspended s c = Some (InThen p)" and "p < length (promises s)"
    and "promises s ! p = Rejected e"
  shows "sf_leave c s =
           s\<lparr>returned := (returned s)(c \<mapsto> Inl e), suspended := (suspended s)(c := None)\<rparr>"
  using assms by (simp add: sf_leave_def sf_receive_def)

lemma leave_burst_fulfilled:
  assumes "distinct cs" and "\<forall>c \<in> set cs. suspended s c = Some (InThen p)"
    and "p < length (promises s)" and "promises s ! p = Fulfilled x"
    and "x < length (objects s)" and "objects s ! x = r"
  shows "objects (run (map Leave cs) s) = objects s @ replicate (length cs) r
       \<and> pending (run (map Leave cs) s) = pending s
       \<and> invocations (run (map Leave cs) s) = invocations s
       \<and> (\<forall>i < length cs. returned (run (map Leave cs) s) (cs ! i) = Some (Inr (length (objects s) + i)))
       \<and> (\<forall>c. c \<notin> set cs \<longrightarrow> returned (run (map Leave cs) s) c = returned s c)"
  using assms
proof (induction cs arbitrary: s)
  case Nil
  then show ?case by simp
next
  case (Cons c cs)
  let ?s1 = "sf_leave c s"
  have s1: "?s1 = s\<lparr>objects := objects s @ [r],
             returned := (returned s)(c \<mapsto> Inr (length (objects s))),
             suspended := (suspended s)(c := None)\<rparr>"
    using Cons.prems by (simp add: leave_then_fulfilled)
  have c: "c \<notin> set cs" and d: "distinct cs"
    using Cons.prems(1) by simp_all
  have ih: "objects (run (map Leave cs) ?s1) = objects ?s1 @ replicate (length cs) r
       \<and> pending (run (map Leave cs) ?s1) = pending ?s1
       \<and> invocations (run (map Leave cs) ?s1) = invocations ?s1
       \<and> (\<forall>i < length cs. returned (run (map Leave cs) ?s1) (cs ! i) = Some (Inr (length (objects ?s1) + i)))
       \<and> (\<forall>c. c \<notin> set cs \<longrightarrow> returned (run (map Leave cs) ?s1) c = returned ?s1 c)"
  proof (rule Cons.IH [OF d])
    show "\<forall>c' \<in> set cs. suspended ?s1 c' = Some (InThen p)"
      using Cons.prems(2) c by (auto simp add: s1)
    show "p < length (promises ?s1)" "promises ?s1 ! p = Fulfilled x"
      using Cons.prems by (simp_all add: s1)
    show "x < length (objects ?s1)" "objects ?s1 ! x = r"
      using Cons.prems by (simp_all add: s1 nth_append)
  qed
  have ret: "\<forall>i < length (c # cs).
      returned (run (map Leave (c # cs)) s) ((c # cs) ! i) = Some (Inr (length (objects s) + i))"
  proof (intro allI impI)
    fix i assume "i < length (c # cs)"
    then show "returned (run (map Leave (c # cs)) s) ((c # cs) ! i) = Some (Inr (length (objects s) + i))"
      using ih c by (cases i) (simp_all add: s1)
  qed
  show ?case
    using ih ret by (simp add: s1 replicate_app_Cons_same)
qed

lemma leave_burst_rejected:
  assumes "distinct cs" and "\<forall>c \<in> set cs. suspended s c = Some (InThen p)"
    and "p < length (promises s)" and "promises s ! p = Rejected e"
  shows "objects (run (map Leave cs) s) = objects s
       \<and> pending (run (map Leave cs) s) = pending s
       \<and> invocations (run (map Leave cs) s) = invocations s
       \<and> (\<forall>c \<in> set cs. returned (run (map Leave cs) s) c = Some (Inl e))
       \<and> (\<forall>c. c \<notin> set cs \<longrightarrow> returned (run (map Leave cs) s) c = returned s c)"
  using assms
proof (induction cs arbitrary: s)
  case Nil
  then show ?case by simp
next
  case (Cons c cs)
  let ?s1 = "sf_leave c s"
  have s1: "?s1 = s\<lparr>returned := (returned s)(c \<mapsto> Inl e), suspended := (suspended s)(c := None)\<rparr>"
    using Cons.prems by (simp add: leave_then_rejected)
  have c: "c \<notin> set cs" and d: "distinct cs"
    using Cons.prems(1) by simp_all
  have "\<forall>c' \<in> set cs. suspended ?s1 c' = Some (InThen p)"
    using Cons.prems(2) c by (auto simp add: s1)
  moreover have "p < length (promises ?s1)" "promises ?s1 ! p = Rejected e"
    using Cons.prems by (simp_all add: s1)
  ultimately show ?case
    using Cons.IH [OF d, of ?s1] c by (auto simp add: s1)
qed

lemma enter_pending_no_invocation:
  assumes "pending s key \<noteq> None"
  shows "invocations (sf_enter key c s) = invocations s"
  using assms by (auto simp add: sf_enter_def)

lemmas sf_defs = sf_enter_def sf_settle_def sf_leave_def sf_receive_def idle_def

lemmas eval_defs = onRequestGet_def per_function_mode_def bundle_mode_def single_producer_def
  single_verdict_def bundle_producer_def bundle_verdict_def singleFlight_def fetchOnce_def
  fetched_of_def script_def blank_def or_empty_def toUpperCase_def upper_char_def ALLOWED_def
  TTL_MAP_def DEFAULT_TTL_def cacheKeyStr_def avProblem_def prop_truthy_def prop_value_def
  wrapOk_def wrap429_def json_def cors_def cache_put_def sleep_def backoff_def leg_problem_def
  leg_clean_def Let_def

subsection \<open>The request router\<close>

text \<open>
  C10. The credential check comes before every check of the request: whenever the upstream
  credential is absent (or empty), the response is the 500 of the configuration error,
  whatever the query parameters are, also when the symbol is missing or the function is
  invalid; the world is left as it was.
\<close>

theorem credential_check_first:
  assumes "or_empty (ALPHA_API_KEY env) = []"
  shows "onRequestGet out rq env w =
           (Inr (json (JObj [(''error'', JStr ''ALPHA_API_KEY is not configured.'')]) 500
                   (url_origin rq) []), w)
         \<and> map_sum id resp_status (fst (onRequestGet out rq env w)) = Inr 500"
  using assms by (simp add: onRequestGet_def Let_def json_status)

theorem credential_check_first_witness:
  "or_empty (ALPHA_API_KEY \<lparr>ALPHA_API_KEY = None\<rparr>) = []
   \<and> map_sum id resp_status
       (fst (onRequestGet \<lparr>reply = script [], random = 0\<rparr>
              \<lparr>url_origin = ''https://ratios.example'', param_function = Some ''bogus'',
               param_symbol = None, param_bundle = None, param_nocache = None\<rparr>
              \<lparr>ALPHA_API_KEY = None\<rparr> blank)) = Inr 500"
  using credential_check_first [of "\<lparr>ALPHA_API_KEY = None\<rparr>" "\<lparr>reply = script [], random = 0\<rparr>"
      "\<lparr>url_origin = ''https://ratios.example'', param_function = Some ''bogus'',
               param_symbol = None, param_bundle = None, param_nocache = None\<rparr>" blank]
  by (simp add: or_empty_def json_status)

text \<open>
  C9, as stated, fails: a request without a symbol is answered 500, not 400, when the
  credential is not configured.
\<close>

theorem missing_symbol_without_credential_counterexample:
  "map_sum id resp_status
     (fst (onRequestGet \<lparr>reply = script [], random = 0\<rparr>
            \<lparr>url_origin = ''https://ratios.example'', param_function = Some ''OVERVIEW'',
             param_symbol = None, param_bundle = None, param_nocache = None\<rparr>
            \<lparr>ALPHA_API_KEY = None\<rparr> blank)) = Inr 500"
  by (simp add: onRequestGet_def or_empty_def Let_def json_status)

text \<open>
  C9, amended. For every request handled while the credential is configured: if the symbol
  is empty or absent the response is 400, whatever the other parameters are, and the world
  is left as it was; if the symbol is there and \<open>bundle=1\<close> is set, the bundle mode is taken,
  and the value of the function parameter has no influence on the outcome; and if
  \<open>bundle=1\<close> is not set and the function, upper-cased, is absent or not one of the four
  known kinds, the response is 400.
\<close>

theorem router_with_credential:
  assumes "or_empty (ALPHA_API_KEY env) \<noteq> []"
  shows "(or_empty (param_symbol rq) = [] \<longrightarrow>
            (\<exists>r. onRequestGet out rq env w = (Inr r, w) \<and> resp_status r = 400))
       \<and> (or_empty (param_symbol rq) \<noteq> [] \<and> param_bundle rq = Some ''1'' \<longrightarrow>
            onRequestGet out rq env w =
              bundle_mode out (or_empty (ALPHA_API_KEY env)) (url_origin rq)
                (toUpperCase (or_empty (param_symbol rq))) (param_nocache rq = Some ''1'') w
            \<and> onRequestGet out (rq\<lparr>param_function := f\<rparr>) env w = onRequestGet out rq env w)
       \<and> (param_bundle rq \<noteq> Some ''1'' \<and> toUpperCase (or_empty (param_function rq)) \<notin> ALLOWED \<longrightarrow>
            (\<exists>r. onRequestGet out rq env w = (Inr r, w) \<and> resp_status r = 400))"
  using assms
  by (simp add: onRequestGet_def per_function_mode_def Let_def json_status toUpperCase_Nil_iff)

theorem router_with_credential_witness:
  "or_empty (ALPHA_API_KEY \<lparr>ALPHA_API_KEY = Some ''K''\<rparr>) \<noteq> []
   \<and> map_sum id resp_status
       (fst (onRequestGet \<lparr>reply = script [], random = 0\<rparr>
              \<lparr>url_origin = ''https://ratios.example'', param_function = Some ''OVERVIEW'',
               param_symbol = None, param_bundle = Some ''1'', param_nocache = Some ''1''\<rparr>
              \<lparr>ALPHA_API_KEY = Some ''K''\<rparr> blank)) = Inr 400
   \<and> onRequestGet \<lparr>reply = script [], random = 0\<rparr>
         \<lparr>url_origin = ''https://ratios.example'', param_function = Some ''bogus'',
          param_symbol = Some ''ibm'', param_bundle = Some ''1'', param_nocache = None\<rparr>
         \<lparr>ALPHA_API_KEY = Some ''K''\<rparr> blank
       = bundle_mode \<lparr>reply = script [], random = 0\<rparr> ''K'' ''https://ratios.example'' ''IBM'' False blank
   \<and> map_sum id resp_status
       (fst (onRequestGet \<lparr>reply = script [], random = 0\<rparr>
              \<lparr>url_origin = ''https://ratios.example'', param_function = Some ''DIVIDENDS'',
               param_symbol = Some ''ibm'', param_bundle = None, param_nocache = None\<rparr>
              \<lparr>ALPHA_API_KEY = Some ''K''\<rparr> blank)) = Inr 400"
  using router_with_credential [of "\<lparr>ALPHA_API_KEY = Some ''K''\<rparr>"
      "\<lparr>url_origin = ''https://ratios.example'', param_function = Some ''OVERVIEW'',
               param_symbol = None, param_bundle = Some ''1'', param_nocache = Some ''1''\<rparr>"
      "\<lparr>reply = script [], random = 0\<rparr>" blank]
    router_with_credential [of "\<lparr>ALPHA_API_KEY = Some ''K''\<rparr>"
      "\<lparr>url_origin = ''https://ratios.example'', param_function = Some ''bogus'',
          param_symbol = Some ''ibm'', param_bundle = Some ''1'', param_nocache = None\<rparr>"
      "\<lparr>reply = script [], random = 0\<rparr>" blank]
    router_with_credential [of "\<lparr>ALPHA_API_KEY = Some ''K''\<rparr>"
      "\<lparr>url_origin = ''https://ratios.example'', param_function = Some ''DIVIDENDS'',
               param_symbol = Some ''ibm'', param_bundle = None, param_nocache = None\<rparr>"
      "\<lparr>reply = script [], random = 0\<rparr>" blank]
  by (auto simp add: or_empty_def toUpperCase_def upper_char_def ALLOWED_def)

subsection \<open>The cache-bypass flag\<close>

text \<open>
  C1, as stated, fails: a request with \<open>nocache=1\<close> whose upstream fetch succeeds is
  answered 200, and the cache holds nothing for its key afterwards.
\<close>

theorem nocache_refresh_not_written_counterexample:
  "map_sum id resp_status
     (fst (onRequestGet
            \<lparr>reply = script [HttpReply 200 (JsonText (JObj [(''Symbol'', JStr ''IBM'')]))],
             random = 0\<rparr>
            \<lparr>url_origin = ''https://ratios.example'', param_function = Some ''OVERVIEW'',
             param_symbol = Some ''IBM'', param_bundle = None, param_nocache = Some ''1''\<rparr>
            \<lparr>ALPHA_API_KEY = Some ''K''\<rparr> blank)) = Inr 200
   \<and> cache
       (snd (onRequestGet
              \<lparr>reply = script [HttpReply 200 (JsonText (JObj [(''Symbol'', JStr ''IBM'')]))],
               random = 0\<rparr>
              \<lparr>url_origin = ''https://ratios.example'', param_function = Some ''OVERVIEW'',
               param_symbol = Some ''IBM'', param_bundle = None, param_nocache = Some ''1''\<rparr>
              \<lparr>ALPHA_API_KEY = Some ''K''\<rparr> blank))
       ''https://alpha-proxy/v3/OVERVIEW/IBM'' = None"
  by (simp add: eval_defs)

text \<open>
  C1, amended. For every request handled with \<open>nocache=1\<close>, in either mode and for every
  key: the handler skips the cache read (its response does not depend on what the cache
  holds) and, also when the upstream fetch succeeds, performs no cache write; the cache is
  left exactly as it was, so a later normal read for the same key observes the prior entry,
  or a miss when there was none.
\<close>

theorem nocache_neither_reads_nor_writes:
  assumes "param_nocache rq = Some ''1''"
  shows "fst (onRequestGet out rq env (w\<lparr>cache := c\<rparr>)) = fst (onRequestGet out rq env w)
       \<and> cache (snd (onRequestGet out rq env w)) = cache w"
proof -
  have "onRequestGet out rq env (w\<lparr>cache := cache w\<rparr>) =
          apsnd (\<lambda>v. v\<lparr>cache := cache w\<rparr>) (onRequestGet out rq env w)"
    using assms by (rule onRequestGet_nocache)
  then have "cache (snd (onRequestGet out rq env w)) = cache w"
    by (cases "onRequestGet out rq env w") (auto dest: arg_cong [where f = cache])
  moreover have "fst (onRequestGet out rq env (w\<lparr>cache := c\<rparr>)) = fst (onRequestGet out rq env w)"
    by (simp add: onRequestGet_nocache [OF assms])
  ultimately show ?thesis by simp
qed

theorem nocache_neither_reads_nor_writes_witness:
  "param_nocache
     \<lparr>url_origin = ''https://ratios.example'', param_function = Some ''OVERVIEW'',
      param_symbol = Some ''IBM'', param_bundle = None, param_nocache = Some ''1''\<rparr> = Some ''1''
   \<and> cache
       (snd (onRequestGet
              \<lparr>reply = script [HttpReply 200 (JsonText (JObj [(''Symbol'', JStr ''IBM'')]))],
               random = 0\<rparr>
              \<lparr>url_origin = ''https://ratios.example'', param_function = Some ''OVERVIEW'',
               param_symbol = Some ''IBM'', param_bundle = None, param_nocache = Some ''1''\<rparr>
              \<lparr>ALPHA_API_KEY = Some ''K''\<rparr> blank)) = cache blank"
  using nocache_neither_reads_nor_writes
    [where rq = "\<lparr>url_origin = ''https://ratios.example'', param_function = Some ''OVERVIEW'',
      param_symbol = Some ''IBM'', param_bundle = None, param_nocache = Some ''1''\<rparr>"
      and out = "\<lparr>reply = script [HttpReply 200 (JsonText (JObj [(''Symbol'', JStr ''IBM'')]))],
               random = 0\<rparr>"
      and env = "\<lparr>ALPHA_API_KEY = Some ''K''\<rparr>" and w = blank]
  by simp

subsection \<open>The problem classifier\<close>

text \<open>
  C7. An upstream reply with status 429 whose body is not JSON (here the plain text
  \<open>Too Many Requests\<close>) leaves \<open>data\<close> at \<open>null\<close>; the classifier returns \<open>null\<close> for it at its
  first line, before it looks at the status, so the reply is not classified as
  rate-limited, and the per-function mode makes no second attempt.
\<close>

theorem status_429_unparsed_body_not_classified:
  "fetched_of (HttpReply 429 (OtherText ''Too Many Requests'')) =
     Inr \<lparr>ok = False, http_status = 429, data = JNull,
          body_txt = OtherText ''Too Many Requests''\<rparr>
   \<and> avProblem JNull 429 = None
   \<and> \<not> rate_limited (avProblem JNull 429)
   \<and> trace
       (snd (onRequestGet
              \<lparr>reply = script [HttpReply 429 (OtherText ''Too Many Requests'')], random = 0\<rparr>
              \<lparr>url_origin = ''https://ratios.example'', param_function = Some ''OVERVIEW'',
               param_symbol = Some ''IBM'', param_bundle = None, param_nocache = None\<rparr>
              \<lparr>ALPHA_API_KEY = Some ''K''\<rparr> blank))
     = [Fetch \<lparr>u_function = ''OVERVIEW'', u_symbol = ''IBM'', u_apikey = ''K''\<rparr>]"
  by (simp add: eval_defs rate_limited_def)

theorem status_429_unparsed_body_not_classified_witness:
  "data \<lparr>ok = False, http_status = 429, data = JNull,
         body_txt = OtherText ''Too Many Requests''\<rparr> = JNull
   \<and> avProblem JNull 429 = None"
  using status_429_unparsed_body_not_classified by simp

text \<open>With a body that parses to an object or an array, status 429 is classified.\<close>

lemma status_429_parsed_body:
  assumes "truthy d" and "typeof_object d"
  shows "avProblem d 429 = Some \<lparr>status = 429, msg = JStr ''rate_limited'', kind = ''429''\<rparr>"
  using assms by (simp add: avProblem_def)

text \<open>
  C6, as stated, fails: a 200 reply whose body has a \<open>Note\<close> field with the empty string as
  its value is not classified as a problem; the reply counts as a success and its body is
  written to the cache.
\<close>

theorem empty_note_counterexample:
  "avProblem (JObj [(''Note'', JStr [])]) 200 = None
   \<and> map_sum id resp_status
       (fst (onRequestGet
              \<lparr>reply = script [HttpReply 200 (JsonText (JObj [(''Note'', JStr [])]))], random = 0\<rparr>
              \<lparr>url_origin = ''https://ratios.example'', param_function = Some ''OVERVIEW'',
               param_symbol = Some ''IBM'', param_bundle = None, param_nocache = None\<rparr>
              \<lparr>ALPHA_API_KEY = Some ''K''\<rparr> blank)) = Inr 200
   \<and> map_option resp_body
       (cache
         (snd (onRequestGet
                \<lparr>reply = script [HttpReply 200 (JsonText (JObj [(''Note'', JStr [])]))], random = 0\<rparr>
                \<lparr>url_origin = ''https://ratios.example'', param_function = Some ''OVERVIEW'',
                 param_symbol = Some ''IBM'', param_bundle = None, param_nocache = None\<rparr>
                \<lparr>ALPHA_API_KEY = Some ''K''\<rparr> blank))
         ''https://alpha-proxy/v3/OVERVIEW/IBM'') = Some (JObj [(''Note'', JStr [])])"
  by (simp add: eval_defs)

text \<open>
  C6, amended. For every upstream reply, of status 200 or any other, whose parsed body has
  a \<open>Note\<close> or \<open>Information\<close> field with a truthy value (anything but \<open>null\<close>, \<open>false\<close>, \<open>0\<close>
  and the empty string), the classifier yields a rate-limit problem, never success. Such a
  reply is never written to the cache: judged by the per-function producer, or as one of
  the legs judged by the bundle producer, it makes the response a 429 and leaves the world
  as it was; and whatever entry a request writes to the cache has a body without such a
  field, in bundle mode a body of four sections each without such a field.
\<close>

theorem throttle_notice_never_success:
  "(throttle_notice d \<longrightarrow> rate_limited (avProblem d st))
   \<and> (throttle_notice (data (f :: fetched)) \<longrightarrow>
        map_sum id resp_status (fst (single_verdict f ttl origin nocache key w)) = Inr 429
        \<and> snd (single_verdict f ttl origin nocache key w) = w)
   \<and> (list_ex (\<lambda>p. throttle_notice (data p)) (ps :: fetched list) \<longrightarrow>
        map_sum id resp_status (fst (bundle_verdict ps ttl origin nocache bkey w)) = Inr 429
        \<and> snd (bundle_verdict ps ttl origin nocache bkey w) = w)
   \<and> (\<forall>k r. cache (snd (onRequestGet out rq env w)) k = Some r \<and> cache w k \<noteq> Some r \<longrightarrow>
        \<not> throttle_notice (resp_body r)
        \<and> (param_bundle rq = Some ''1'' \<longrightarrow>
             (\<exists>qs :: fetched list. length qs = 4 \<and> list_all (\<lambda>p. \<not> throttle_notice (data p)) qs \<and>
                resp_body r = JObj [(''income_statement'', data (qs ! 0)),
                                    (''balance_sheet'', data (qs ! 1)),
                                    (''cash_flow'', data (qs ! 2)),
                                    (''overview'', data (qs ! 3))])))"
  using throttle_notice_problem [of d st] single_verdict_notice [of f ttl origin nocache key w]
    bundle_verdict_notice [of ps ttl origin nocache bkey w] onRequestGet_cache [of out rq env w]
  by blast

theorem throttle_notice_never_success_witness:
  "throttle_notice (JObj [(''Note'', JStr ''Thank you for using Alpha Vantage!'')])
   \<and> rate_limited (avProblem (JObj [(''Note'', JStr ''Thank you for using Alpha Vantage!'')]) 200)
   \<and> throttle_notice (data
       \<lparr>ok = True, http_status = 200,
       data = JObj [(''Information'', JStr ''Premium endpoint.'')],
       body_txt = JsonText (JObj [(''Information'', JStr ''Premium endpoint.'')])\<rparr>)
   \<and> map_sum id resp_status (fst (single_verdict
       \<lparr>ok = True, http_status = 200,
       data = JObj [(''Information'', JStr ''Premium endpoint.'')],
       body_txt = JsonText (JObj [(''Information'', JStr ''Premium endpoint.'')])\<rparr>
       259200 ''https://ratios.example'' False ''https://alpha-proxy/v3/OVERVIEW/IBM'' blank))
     = Inr 429
   \<and> snd (single_verdict
       \<lparr>ok = True, http_status = 200,
       data = JObj [(''Information'', JStr ''Premium endpoint.'')],
       body_txt = JsonText (JObj [(''Information'', JStr ''Premium endpoint.'')])\<rparr>
       259200 ''https://ratios.example'' False ''https://alpha-proxy/v3/OVERVIEW/IBM'' blank)
     = blank
   \<and> list_ex (\<lambda>p. throttle_notice (data p))
       [\<lparr>ok = True, http_status = 200, data = JObj [(''symbol'', JStr ''IBM'')],
       body_txt = JsonText (JObj [(''symbol'', JStr ''IBM'')])\<rparr>,
        \<lparr>ok = True, http_status = 200,
       data = JObj [(''Information'', JStr ''Premium endpoint.'')],
       body_txt = JsonText (JObj [(''Information'', JStr ''Premium endpoint.'')])\<rparr>,
        \<lparr>ok = True, http_status = 200, data = JObj [(''symbol'', JStr ''IBM'')],
       body_txt = JsonText (JObj [(''symbol'', JStr ''IBM'')])\<rparr>,
        \<lparr>ok = True, http_status = 200, data = JObj [(''symbol'', JStr ''IBM'')],
       body_txt = JsonText (JObj [(''symbol'', JStr ''IBM'')])\<rparr>]
   \<and> map_sum id resp_status (fst (bundle_verdict
       [\<lparr>ok = True, http_status = 200, data = JObj [(''symbol'', JStr ''IBM'')],
       body_txt = JsonText (JObj [(''symbol'', JStr ''IBM'')])\<rparr>,
        \<lparr>ok = True, http_status = 200,
       data = JObj [(''Information'', JStr ''Premium endpoint.'')],
       body_txt = JsonText (JObj [(''Information'', JStr ''Premium endpoint.'')])\<rparr>,
        \<lparr>ok = True, http_status = 200, data = JObj [(''symbol'', JStr ''IBM'')],
       body_txt = JsonText (JObj [(''symbol'', JStr ''IBM'')])\<rparr>,
        \<lparr>ok = True, http_status = 200, data = JObj [(''symbol'', JStr ''IBM'')],
       body_txt = JsonText (JObj [(''symbol'', JStr ''IBM'')])\<rparr>]
       259200 ''https://ratios.example'' False ''https://alpha-proxy/v3/BUNDLE/IBM'' blank))
     = Inr 429
   \<and> cache (snd (onRequestGet
       \<lparr>reply = script [HttpReply 200 (JsonText (JObj [(''Symbol'', JStr ''IBM'')]))], random = 0\<rparr>
       \<lparr>url_origin = ''https://ratios.example'', param_function = Some ''OVERVIEW'',
       param_symbol = Some ''IBM'', param_bundle = None, param_nocache = None\<rparr>
       \<lparr>ALPHA_API_KEY = Some ''K''\<rparr> blank)) ''https://alpha-proxy/v3/OVERVIEW/IBM''
     = Some (wrapOk (JObj [(''Symbol'', JStr ''IBM'')]) 259200 ''https://ratios.example''
       [(''x-proxy-cache'', ''MISS'')])
   \<and> cache blank ''https://alpha-proxy/v3/OVERVIEW/IBM'' \<noteq> Some (wrapOk (JObj [(''Symbol'', JStr ''IBM'')]) 259200 ''https://ratios.example''
       [(''x-proxy-cache'', ''MISS'')])
   \<and> \<not> throttle_notice (resp_body (wrapOk (JObj [(''Symbol'', JStr ''IBM'')]) 259200 ''https://ratios.example''
       [(''x-proxy-cache'', ''MISS'')]))"
  using throttle_notice_never_success
    [where d = "JObj [(''Note'', JStr ''Thank you for using Alpha Vantage!'')]" and st = 200
      and f = "\<lparr>ok = True, http_status = 200,
       data = JObj [(''Information'', JStr ''Premium endpoint.'')],
       body_txt = JsonText (JObj [(''Information'', JStr ''Premium endpoint.'')])\<rparr>"
      and ps = "[\<lparr>ok = True, http_status = 200, data = JObj [(''symbol'', JStr ''IBM'')],
       body_txt = JsonText (JObj [(''symbol'', JStr ''IBM'')])\<rparr>,
        \<lparr>ok = True, http_status = 200,
       data = JObj [(''Information'', JStr ''Premium endpoint.'')],
       body_txt = JsonText (JObj [(''Information'', JStr ''Premium endpoint.'')])\<rparr>,
        \<lparr>ok = True, http_status = 200, data = JObj [(''symbol'', JStr ''IBM'')],
       body_txt = JsonText (JObj [(''symbol'', JStr ''IBM'')])\<rparr>,
        \<lparr>ok = True, http_status = 200, data = JObj [(''symbol'', JStr ''IBM'')],
       body_txt = JsonText (JObj [(''symbol'', JStr ''IBM'')])\<rparr>]"
      and ttl = 259200 and origin = "''https://ratios.example''" and nocache = False
      and key = "''https://alpha-proxy/v3/OVERVIEW/IBM''"
      and bkey = "''https://alpha-proxy/v3/BUNDLE/IBM''" and w = blank
      and out = "\<lparr>reply = script [HttpReply 200 (JsonText (JObj [(''Symbol'', JStr ''IBM'')]))], random = 0\<rparr>"
      and rq = "\<lparr>url_origin = ''https://ratios.example'', param_function = Some ''OVERVIEW'',
       param_symbol = Some ''IBM'', param_bundle = None, param_nocache = None\<rparr>"
      and env = "\<lparr>ALPHA_API_KEY = Some ''K''\<rparr>"]
  by (simp add: throttle_notice_def prop_truthy_def eval_defs cache_control_def)

subsection \<open>The retry policy of the per-function mode\<close>

text \<open>
  C5, as stated, fails: a first attempt whose body carries an \<open>Error Message\<close> is classified
  as a bad request, not as rate-limited, and the second attempt is made all the same.
\<close>

theorem retry_after_bad_request_counterexample:
  "bad_request (avProblem (JObj [(''Error Message'', JStr ''Invalid API call.'')]) 200)
   \<and> \<not> rate_limited (avProblem (JObj [(''Error Message'', JStr ''Invalid API call.'')]) 200)
   \<and> fetches (trace
       (snd (onRequestGet
              \<lparr>reply = script
                 [HttpReply 200 (JsonText (JObj [(''Error Message'', JStr ''Invalid API call.'')])),
                  HttpReply 200 (JsonText (JObj [(''Error Message'', JStr ''Invalid API call.'')]))],
               random = 0\<rparr>
              \<lparr>url_origin = ''https://ratios.example'', param_function = Some ''OVERVIEW'',
               param_symbol = Some ''NOSUCH'', param_bundle = None, param_nocache = None\<rparr>
              \<lparr>ALPHA_API_KEY = Some ''K''\<rparr> blank)))
     = [\<lparr>u_function = ''OVERVIEW'', u_symbol = ''NOSUCH'', u_apikey = ''K''\<rparr>,
        \<lparr>u_function = ''OVERVIEW'', u_symbol = ''NOSUCH'', u_apikey = ''K''\<rparr>]"
  by (simp add: eval_defs rate_limited_def bad_request_def)

text \<open>
  C5, amended. The producer of the per-function mode executes the upstream attempt once; a
  second attempt is made exactly when the first attempt's classifier result is a problem
  of any kind (rate-limited or bad request), after a random delay of 1000 to 1499 ms, the
  random number being in \<open>[0, 1)\<close>; whatever the second attempt yields is judged as a first
  attempt would be and surfaced as it is; so no request outside bundle mode makes more
  than two upstream attempts.
\<close>

theorem retry_on_any_problem:
  assumes "0 \<le> random out" and "random out < 1"
  shows "trace (snd (single_producer out u ttl origin nocache key w)) =
           (case fetched_of (reply out (fetch_count w)) of
              Inl e \<Rightarrow> trace w @ [Fetch u]
            | Inr f \<Rightarrow>
                if avProblem (data f) (http_status f) = None then trace w @ [Fetch u]
                else trace w @ [Fetch u, Sleep (backoff out 1000 500), Fetch u])
       \<and> 1000 \<le> backoff out 1000 500 \<and> backoff out 1000 500 < 1500
       \<and> (\<forall>f1 f2. fetched_of (reply out (fetch_count w)) = Inr f1
             \<and> avProblem (data f1) (http_status f1) \<noteq> None
             \<and> fetched_of (reply out (Suc (fetch_count w))) = Inr f2
           \<longrightarrow> fst (single_producer out u ttl origin nocache key w)
                 = fst (single_verdict f2 ttl origin nocache key w))
       \<and> (param_bundle rq \<noteq> Some ''1'' \<longrightarrow>
            fetch_count (snd (onRequestGet out rq env w)) \<le> fetch_count w + 2)"
proof -
  have "1000 \<le> backoff out 1000 500 \<and> backoff out 1000 500 < 1500"
    using backoff_window [OF assms, of 1000 500] by simp
  moreover have "param_bundle rq \<noteq> Some ''1'' \<longrightarrow>
      fetch_count (snd (onRequestGet out rq env w)) \<le> fetch_count w + 2"
    by (simp add: onRequestGet_def Let_def per_function_mode_fetch_count [simplified])
  moreover have "\<forall>f1 f2. fetched_of (reply out (fetch_count w)) = Inr f1
             \<and> avProblem (data f1) (http_status f1) \<noteq> None
             \<and> fetched_of (reply out (Suc (fetch_count w))) = Inr f2
           \<longrightarrow> fst (single_producer out u ttl origin nocache key w)
                 = fst (single_verdict f2 ttl origin nocache key w)"
    by (auto simp add: single_producer_eq single_verdict_def Let_def)
  ultimately show ?thesis
    by (simp only: single_producer_trace simp_thms)
qed

theorem retry_on_any_problem_witness:
  "(0::rat) \<le> 1 / 2 \<and> (1::rat) / 2 < 1
   \<and> trace
       (snd (single_producer
              \<lparr>reply = script
                 [HttpReply 200 (JsonText (JObj [(''Note'', JStr ''Thank you for using Alpha Vantage!'')])),
                  HttpReply 200 (JsonText (JObj [(''Symbol'', JStr ''IBM'')]))],
               random = 1 / 2\<rparr>
              \<lparr>u_function = ''OVERVIEW'', u_symbol = ''IBM'', u_apikey = ''K''\<rparr>
              259200 ''https://ratios.example'' False ''https://alpha-proxy/v3/OVERVIEW/IBM'' blank))
     = [Fetch \<lparr>u_function = ''OVERVIEW'', u_symbol = ''IBM'', u_apikey = ''K''\<rparr>,
        Sleep 1250,
        Fetch \<lparr>u_function = ''OVERVIEW'', u_symbol = ''IBM'', u_apikey = ''K''\<rparr>]"
  using retry_on_any_problem
    [where out = "\<lparr>reply = script
                 [HttpReply 200 (JsonText (JObj [(''Note'', JStr ''Thank you for using Alpha Vantage!'')])),
                  HttpReply 200 (JsonText (JObj [(''Symbol'', JStr ''IBM'')]))],
               random = 1 / 2\<rparr>"
      and u = "\<lparr>u_function = ''OVERVIEW'', u_symbol = ''IBM'', u_apikey = ''K''\<rparr>"
      and ttl = 259200 and origin = "''https://ratios.example''" and nocache = False
      and key = "''https://alpha-proxy/v3/OVERVIEW/IBM''" and w = blank]
  by (simp add: eval_defs fetch_count_def)

subsection \<open>What the per-function mode answers on a failure\<close>

text \<open>
  C8, as stated, fails: a request whose upstream body carries an \<open>Error Message\<close> is tried a
  second time, and its response has status 429.
\<close>

theorem bad_request_answered_429_counterexample:
  "map_sum id resp_status
     (fst (onRequestGet
            \<lparr>reply = script
               [HttpReply 200 (JsonText (JObj [(''Error Message'', JStr ''Invalid API call.'')])),
                HttpReply 200 (JsonText (JObj [(''Error Message'', JStr ''Invalid API call.'')]))],
             random = 0\<rparr>
            \<lparr>url_origin = ''https://ratios.example'', param_function = Some ''CASH_FLOW'',
             param_symbol = Some ''NOSUCH'', param_bundle = None, param_nocache = None\<rparr>
            \<lparr>ALPHA_API_KEY = Some ''K''\<rparr> blank)) = Inr 429
   \<and> length (fetches (trace
       (snd (onRequestGet
              \<lparr>reply = script
                 [HttpReply 200 (JsonText (JObj [(''Error Message'', JStr ''Invalid API call.'')])),
                  HttpReply 200 (JsonText (JObj [(''Error Message'', JStr ''Invalid API call.'')]))],
               random = 0\<rparr>
              \<lparr>url_origin = ''https://ratios.example'', param_function = Some ''CASH_FLOW'',
               param_symbol = Some ''NOSUCH'', param_bundle = None, param_nocache = None\<rparr>
              \<lparr>ALPHA_API_KEY = Some ''K''\<rparr> blank)))) = 2"
  by (simp add: eval_defs)

text \<open>
  C8, amended. For every upstream reply whose parsed body has an \<open>Error Message\<close> field with
  a truthy value, where neither the status 429 nor a throttle field applies, the classifier
  yields the bad-request problem (status 400, kind \<open>error\<close>), which is not a rate-limit
  problem; the per-function producer that receives it as its first attempt waits and
  makes the second attempt, as it does for every classified problem.
\<close>

theorem bad_request_classified_and_retried:
  assumes "prop_truthy d ''Error Message''" and "st \<noteq> 429" and "\<not> throttle_notice d"
    and "reply out (fetch_count w) = HttpReply st (JsonText d)"
  shows "avProblem d st =
           Some \<lparr>status = 400, msg = prop_value d ''Error Message'', kind = ''error''\<rparr>
       \<and> bad_request (avProblem d st)
       \<and> \<not> rate_limited (avProblem d st)
       \<and> trace (snd (single_producer out u ttl origin nocache key w)) =
           trace w @ [Fetch u, Sleep (backoff out 1000 500), Fetch u]"
proof -
  have "truthy d \<and> typeof_object d"
    using assms(1) by (rule prop_truthy_object)
  then have p: "avProblem d st =
      Some \<lparr>status = 400, msg = prop_value d ''Error Message'', kind = ''error''\<rparr>"
    using assms(1-3) by (simp add: avProblem_def throttle_notice_def)
  have "fetched_of (reply out (fetch_count w)) =
      Inr \<lparr>ok = (200 \<le> st \<and> st \<le> 299), http_status = st, data = d, body_txt = JsonText d\<rparr>"
    by (simp add: assms(4) fetched_of_def)
  then have "trace (snd (single_producer out u ttl origin nocache key w)) =
      trace w @ [Fetch u, Sleep (backoff out 1000 500), Fetch u]"
    by (simp add: single_producer_trace p)
  with p show ?thesis
    by (simp add: bad_request_def rate_limited_def)
qed

theorem bad_request_classified_and_retried_witness:
  "prop_truthy (JObj [(''Error Message'', JStr ''Invalid API call.'')]) ''Error Message''
   \<and> (200::nat) \<noteq> 429
   \<and> \<not> throttle_notice (JObj [(''Error Message'', JStr ''Invalid API call.'')])
   \<and> reply \<lparr>reply = script
                [HttpReply 200 (JsonText (JObj [(''Error Message'', JStr ''Invalid API call.'')])),
                 HttpReply 200 (JsonText (JObj [(''Error Message'', JStr ''Invalid API call.'')]))],
              random = 0\<rparr> (fetch_count blank)
       = HttpReply 200 (JsonText (JObj [(''Error Message'', JStr ''Invalid API call.'')]))
   \<and> bad_request (avProblem (JObj [(''Error Message'', JStr ''Invalid API call.'')]) 200)
   \<and> trace
       (snd (single_producer
              \<lparr>reply = script
                 [HttpReply 200 (JsonText (JObj [(''Error Message'', JStr ''Invalid API call.'')])),
                  HttpReply 200 (JsonText (JObj [(''Error Message'', JStr ''Invalid API call.'')]))],
               random = 0\<rparr>
              \<lparr>u_function = ''OVERVIEW'', u_symbol = ''NOSUCH'', u_apikey = ''K''\<rparr>
              259200 ''https://ratios.example'' False ''https://alpha-proxy/v3/OVERVIEW/NOSUCH''
              blank))
     = [Fetch \<lparr>u_function = ''OVERVIEW'', u_symbol = ''NOSUCH'', u_apikey = ''K''\<rparr>,
        Sleep 1000,
        Fetch \<lparr>u_function = ''OVERVIEW'', u_symbol = ''NOSUCH'', u_apikey = ''K''\<rparr>]"
  using bad_request_classified_and_retried
    [where d = "JObj [(''Error Message'', JStr ''Invalid API call.'')]" and st = 200
      and out = "\<lparr>reply = script
                 [HttpReply 200 (JsonText (JObj [(''Error Message'', JStr ''Invalid API call.'')])),
                  HttpReply 200 (JsonText (JObj [(''Error Message'', JStr ''Invalid API call.'')]))],
               random = 0\<rparr>"
      and w = blank
      and u = "\<lparr>u_function = ''OVERVIEW'', u_symbol = ''NOSUCH'', u_apikey = ''K''\<rparr>"
      and ttl = 259200 and origin = "''https://ratios.example''" and nocache = False
      and key = "''https://alpha-proxy/v3/OVERVIEW/NOSUCH''"]
  by (simp add: prop_truthy_def throttle_notice_def fetch_count_def blank_def script_def
      backoff_def bad_request_def)

text \<open>
  Whatever attempt the per-function producer judges: when the classifier finds no problem
  in it and it is not a success (status outside 200..299, or a body that is not JSON, or a
  falsy JSON value), the answer is the 429 of \<open>wrap429\<close> with kind \<open>upstream\<close>, and nothing is
  written.
\<close>

lemma upstream_failure_verdict:
  assumes "avProblem (data f) (http_status f) = None" and "\<not> (ok f \<and> truthy (data f))"
  shows "single_verdict f ttl origin nocache key w =
           (Inr (wrap429 (JStr (''Upstream '' @ show_nat (http_status f))) origin ''upstream''), w)"
  using assms by (auto simp add: single_verdict_def Let_def)

text \<open>
  C2. A per-function request whose upstream reply has status 500 and a body that is not
  JSON is answered by \<open>wrap429\<close>: status 429, a \<open>Retry-After\<close> header, detail
  \<open>Upstream 500\<close> and kind \<open>upstream\<close>. So is one whose reply has status 200 and a body
  that is not JSON. The latest revision has no 502 response.
\<close>

theorem upstream_failure_answered_429:
  "fst (onRequestGet
         \<lparr>reply = script [HttpReply 500 (OtherText ''Internal Server Error'')], random = 0\<rparr>
         \<lparr>url_origin = ''https://ratios.example'', param_function = Some ''OVERVIEW'',
          param_symbol = Some ''IBM'', param_bundle = None, param_nocache = None\<rparr>
         \<lparr>ALPHA_API_KEY = Some ''K''\<rparr> blank)
     = Inr (wrap429 (JStr ''Upstream 500'') ''https://ratios.example'' ''upstream'')
   \<and> resp_status (wrap429 (JStr ''Upstream 500'') ''https://ratios.example'' ''upstream'') = 429
   \<and> map_sum id resp_status
       (fst (onRequestGet
              \<lparr>reply = script [HttpReply 200 (OtherText ''<html>maintenance</html>'')], random = 0\<rparr>
              \<lparr>url_origin = ''https://ratios.example'', param_function = Some ''OVERVIEW'',
               param_symbol = Some ''IBM'', param_bundle = None, param_nocache = None\<rparr>
              \<lparr>ALPHA_API_KEY = Some ''K''\<rparr> blank)) = Inr 429"
  by (simp add: eval_defs show_nat.simps digit_char_def)

subsection \<open>The bundle mode\<close>

text \<open>
  The cache entry a request reads is the one under the URL of its key request. With a
  parser that resolves the dot segment of \<open>.../v3/BUNDLE/../OVERVIEW/IBM\<close>, a bundle request
  for the symbol \<open>../overview/ibm\<close> is answered from the entry of the per-function key
  \<open>.../v3/OVERVIEW/IBM\<close>, without any outbound call.
\<close>

lemma bundle_key_alias_example:
  "fst (onRequestGet \<lparr>reply = script [], random = 0\<rparr>
         \<lparr>url_origin = ''https://ratios.example'', param_function = None,
          param_symbol = Some ''../overview/ibm'', param_bundle = Some ''1'',
          param_nocache = None\<rparr>
         \<lparr>ALPHA_API_KEY = Some ''K''\<rparr>
         (blank\<lparr>cache := [''https://alpha-proxy/v3/OVERVIEW/IBM'' \<mapsto>
                          wrapOk (JObj [(''Symbol'', JStr ''IBM'')]) 259200 ''https://ratios.example''
                            [(''x-proxy-cache'', ''MISS'')]],
                request_url := id(''https://alpha-proxy/v3/BUNDLE/../OVERVIEW/IBM'' :=
                                  ''https://alpha-proxy/v3/OVERVIEW/IBM'')\<rparr>))
     = Inr (fresh_hit (wrapOk (JObj [(''Symbol'', JStr ''IBM'')]) 259200 ''https://ratios.example''
                        [(''x-proxy-cache'', ''MISS'')]) 259200)
   \<and> trace (snd (onRequestGet \<lparr>reply = script [], random = 0\<rparr>
         \<lparr>url_origin = ''https://ratios.example'', param_function = None,
          param_symbol = Some ''../overview/ibm'', param_bundle = Some ''1'',
          param_nocache = None\<rparr>
         \<lparr>ALPHA_API_KEY = Some ''K''\<rparr>
         (blank\<lparr>cache := [''https://alpha-proxy/v3/OVERVIEW/IBM'' \<mapsto>
                          wrapOk (JObj [(''Symbol'', JStr ''IBM'')]) 259200 ''https://ratios.example''
                            [(''x-proxy-cache'', ''MISS'')]],
                request_url := id(''https://alpha-proxy/v3/BUNDLE/../OVERVIEW/IBM'' :=
                                  ''https://alpha-proxy/v3/OVERVIEW/IBM'')\<rparr>))) = []"
  by (simp add: onRequestGet_def bundle_mode_def or_empty_def toUpperCase_def upper_char_def
      cacheKeyStr_def DEFAULT_TTL_def blank_def Let_def)

text \<open>
  C3, as stated, fails: a bundle request with \<open>nocache=1\<close> whose four legs are clean is
  answered 200, and nothing is written to the bundle cache key.
\<close>

theorem bundle_nocache_success_not_cached_counterexample:
  "map_sum id resp_status
     (fst (onRequestGet
            \<lparr>reply = script
               [HttpReply 200 (JsonText (JObj [(''symbol'', JStr ''IBM'')])),
                HttpReply 200 (JsonText (JObj [(''symbol'', JStr ''IBM'')])),
                HttpReply 200 (JsonText (JObj [(''symbol'', JStr ''IBM'')])),
                HttpReply 200 (JsonText (JObj [(''Symbol'', JStr ''IBM'')]))],
             random = 0\<rparr>
            \<lparr>url_origin = ''https://ratios.example'', param_function = None,
             param_symbol = Some ''IBM'', param_bundle = Some ''1'', param_nocache = Some ''1''\<rparr>
            \<lparr>ALPHA_API_KEY = Some ''K''\<rparr> blank)) = Inr 200
   \<and> cache
       (snd (onRequestGet
              \<lparr>reply = script
                 [HttpReply 200 (JsonText (JObj [(''symbol'', JStr ''IBM'')])),
                  HttpReply 200 (JsonText (JObj [(''symbol'', JStr ''IBM'')])),
                  HttpReply 200 (JsonText (JObj [(''symbol'', JStr ''IBM'')])),
                  HttpReply 200 (JsonText (JObj [(''Symbol'', JStr ''IBM'')]))],
               random = 0\<rparr>
              \<lparr>url_origin = ''https://ratios.example'', param_function = None,
               param_symbol = Some ''IBM'', param_bundle = Some ''1'', param_nocache = Some ''1''\<rparr>
              \<lparr>ALPHA_API_KEY = Some ''K''\<rparr> blank))
       ''https://alpha-proxy/v3/BUNDLE/IBM'' = None"
  by (simp add: eval_defs)

text \<open>
  C3, amended. For every bundle request that is not answered from the cache (\<open>nocache=1\<close>
  is set, or the cache holds nothing under the URL of the bundle key request) nor from a
  fetch already in flight: the producer judges the legs of the first round, or, when one
  of them reports a problem, those of the single retry round, so there are at most two
  rounds (eight outbound calls). The response is the success, with the assembled four-leg
  object as its body, if and only if all four judged legs are clean; that response is
  written to the cache under the URL of the bundle key request unless \<open>nocache=1\<close> is set.
  When a judged leg is not clean the response is the 429 of \<open>wrap429\<close> and no cache write
  is performed; when a fetch is rejected there is no response and no cache write either.
\<close>

theorem bundle_all_or_nothing:
  assumes "or_empty (ALPHA_API_KEY env) \<noteq> []"
    and "or_empty (param_symbol rq) \<noteq> []"
    and "param_bundle rq = Some ''1''"
    and "param_nocache rq = Some ''1'' \<or>
         cache w (request_url w
                    (cacheKeyStr [''BUNDLE'', toUpperCase (or_empty (param_symbol rq))])) = None"
    and "inflight w (cacheKeyStr [''BUNDLE-FETCH'', toUpperCase (or_empty (param_symbol rq))]) = None"
  shows "(map_sum id resp_status (fst (onRequestGet out rq env w)) = Inr 200)
           = (\<exists>ps. judged_round out (fetch_count w) 4 = Inr ps \<and> list_all leg_clean ps)
       \<and> (map_sum id resp_status (fst (onRequestGet out rq env w)) = Inr 429)
           = (\<exists>ps. judged_round out (fetch_count w) 4 = Inr ps \<and> \<not> list_all leg_clean ps)
       \<and> (case judged_round out (fetch_count w) 4 of
            Inl e \<Rightarrow>
              fst (onRequestGet out rq env w) = Inl e
              \<and> cache (snd (onRequestGet out rq env w)) = cache w
          | Inr ps \<Rightarrow>
              if list_all leg_clean ps
              then fst (onRequestGet out rq env w) =
                     Inr (wrapOk (four_legs ps) DEFAULT_TTL (url_origin rq)
                            [(''x-proxy-cache'', ''MISS-BUNDLE'')])
                   \<and> cache (snd (onRequestGet out rq env w)) =
                     (if param_nocache rq = Some ''1'' then cache w
                      else (cache w)
                             (request_url w
                                (cacheKeyStr [''BUNDLE'', toUpperCase (or_empty (param_symbol rq))]) \<mapsto>
                                wrapOk (four_legs ps) DEFAULT_TTL (url_origin rq)
                                  [(''x-proxy-cache'', ''MISS-BUNDLE'')]))
              else fst (onRequestGet out rq env w) =
                     Inr (wrap429 (JStr ''Bundle throttled and no cached copy'') (url_origin rq)
                            ''bundle'')
                   \<and> cache (snd (onRequestGet out rq env w)) = cache w)
       \<and> fetch_count (snd (onRequestGet out rq env w)) \<le> fetch_count w + 8"
proof -
  let ?sym = "toUpperCase (or_empty (param_symbol rq))"
  let ?nc = "param_nocache rq = Some ''1''"
  have eq: "onRequestGet out rq env w =
      bundle_mode out (or_empty (ALPHA_API_KEY env)) (url_origin rq) ?sym ?nc w"
    using assms(1-3) by (simp add: onRequestGet_def Let_def toUpperCase_Nil_iff)
  note j = bundle_mode_judged [OF assms(4) assms(5), of out "or_empty (ALPHA_API_KEY env)"
      "url_origin rq", folded eq]
  have "(map_sum id resp_status (fst (onRequestGet out rq env w)) = Inr 200)
          = (\<exists>ps. judged_round out (fetch_count w) 4 = Inr ps \<and> list_all leg_clean ps)"
    using j by (auto simp add: wrapOk_def wrap429_def json_status split: sum.splits if_splits)
  moreover have "(map_sum id resp_status (fst (onRequestGet out rq env w)) = Inr 429)
          = (\<exists>ps. judged_round out (fetch_count w) 4 = Inr ps \<and> \<not> list_all leg_clean ps)"
    using j by (auto simp add: wrapOk_def wrap429_def json_status split: sum.splits if_splits)
  ultimately show ?thesis
    using j by (simp only: simp_thms)
qed

theorem bundle_all_or_nothing_witness:
  "or_empty (ALPHA_API_KEY \<lparr>ALPHA_API_KEY = Some ''K''\<rparr>) \<noteq> []
   \<and> or_empty (param_symbol
       \<lparr>url_origin = ''https://ratios.example'', param_function = None,
       param_symbol = Some ''ibm'', param_bundle = Some ''1'', param_nocache = None\<rparr>) \<noteq> []
   \<and> param_bundle
       \<lparr>url_origin = ''https://ratios.example'', param_function = None,
       param_symbol = Some ''ibm'', param_bundle = Some ''1'', param_nocache = None\<rparr> = Some ''1''
   \<and> cache blank (request_url blank (cacheKeyStr [''BUNDLE'', toUpperCase (or_empty (param_symbol
       \<lparr>url_origin = ''https://ratios.example'', param_function = None,
       param_symbol = Some ''ibm'', param_bundle = Some ''1'', param_nocache = None\<rparr>))])) = None
   \<and> inflight blank (cacheKeyStr [''BUNDLE-FETCH'', toUpperCase (or_empty (param_symbol
       \<lparr>url_origin = ''https://ratios.example'', param_function = None,
       param_symbol = Some ''ibm'', param_bundle = Some ''1'', param_nocache = None\<rparr>))]) = None
   \<and> map_sum id resp_status (fst (onRequestGet
       \<lparr>reply = script
         [HttpReply 200 (JsonText (JObj [(''symbol'', JStr ''IBM'')])),
          HttpReply 200 (JsonText (JObj [(''Note'', JStr ''Thank you for using Alpha Vantage!'')])),
          HttpReply 200 (JsonText (JObj [(''symbol'', JStr ''IBM'')])),
          HttpReply 200 (JsonText (JObj [(''symbol'', JStr ''IBM'')])),
          HttpReply 200 (JsonText (JObj [(''symbol'', JStr ''IBM'')])),
          HttpReply 200 (JsonText (JObj [(''symbol'', JStr ''IBM'')])),
          HttpReply 200 (JsonText (JObj [(''symbol'', JStr ''IBM'')])),
          HttpReply 200 (JsonText (JObj [(''symbol'', JStr ''IBM'')]))],
       random = 0\<rparr>
       \<lparr>url_origin = ''https://ratios.example'', param_function = None,
       param_symbol = Some ''ibm'', param_bundle = Some ''1'', param_nocache = None\<rparr>
       \<lparr>ALPHA_API_KEY = Some ''K''\<rparr> blank)) = Inr 200
   \<and> map_option resp_body (cache (snd (onRequestGet
       \<lparr>reply = script
         [HttpReply 200 (JsonText (JObj [(''symbol'', JStr ''IBM'')])),
          HttpReply 200 (JsonText (JObj [(''Note'', JStr ''Thank you for using Alpha Vantage!'')])),
          HttpReply 200 (JsonText (JObj [(''symbol'', JStr ''IBM'')])),
          HttpReply 200 (JsonText (JObj [(''symbol'', JStr ''IBM'')])),
          HttpReply 200 (JsonText (JObj [(''symbol'', JStr ''IBM'')])),
          HttpReply 200 (JsonText (JObj [(''symbol'', JStr ''IBM'')])),
          HttpReply 200 (JsonText (JObj [(''symbol'', JStr ''IBM'')])),
          HttpReply 200 (JsonText (JObj [(''symbol'', JStr ''IBM'')]))],
       random = 0\<rparr>
       \<lparr>url_origin = ''https://ratios.example'', param_function = None,
       param_symbol = Some ''ibm'', param_bundle = Some ''1'', param_nocache = None\<rparr>
       \<lparr>ALPHA_API_KEY = Some ''K''\<rparr> blank)) ''https://alpha-proxy/v3/BUNDLE/IBM'')
     = Some (JObj [(''income_statement'', JObj [(''symbol'', JStr ''IBM'')]), (''balance_sheet'', JObj [(''symbol'', JStr ''IBM'')]),
                   (''cash_flow'', JObj [(''symbol'', JStr ''IBM'')]), (''overview'', JObj [(''symbol'', JStr ''IBM'')])])
   \<and> map_sum id resp_status (fst (onRequestGet
       \<lparr>reply = script
         [HttpReply 200 (JsonText (JObj [(''symbol'', JStr ''IBM'')])),
          HttpReply 200 (JsonText (JObj [(''Note'', JStr ''Thank you for using Alpha Vantage!'')])),
          HttpReply 200 (JsonText (JObj [(''symbol'', JStr ''IBM'')])),
          HttpReply 200 (JsonText (JObj [(''symbol'', JStr ''IBM'')])),
          HttpReply 200 (JsonText (JObj [(''symbol'', JStr ''IBM'')])),
          HttpReply 200 (JsonText (JObj [(''symbol'', JStr ''IBM'')])),
          HttpReply 200 (JsonText (JObj [(''symbol'', JStr ''IBM'')])),
          HttpReply 503 (OtherText ''Service Unavailable'')],
       random = 0\<rparr>
       \<lparr>url_origin = ''https://ratios.example'', param_function = None,
       param_symbol = Some ''ibm'', param_bundle = Some ''1'', param_nocache = None\<rparr>
       \<lparr>ALPHA_API_KEY = Some ''K''\<rparr> blank)) = Inr 429
   \<and> cache (snd (onRequestGet
       \<lparr>reply = script
         [HttpReply 200 (JsonText (JObj [(''symbol'', JStr ''IBM'')])),
          HttpReply 200 (JsonText (JObj [(''Note'', JStr ''Thank you for using Alpha Vantage!'')])),
          HttpReply 200 (JsonText (JObj [(''symbol'', JStr ''IBM'')])),
          HttpReply 200 (JsonText (JObj [(''symbol'', JStr ''IBM'')])),
          HttpReply 200 (JsonText (JObj [(''symbol'', JStr ''IBM'')])),
          HttpReply 200 (JsonText (JObj [(''symbol'', JStr ''IBM'')])),
          HttpReply 200 (JsonText (JObj [(''symbol'', JStr ''IBM'')])),
          HttpReply 503 (OtherText ''Service Unavailable'')],
       random = 0\<rparr>
       \<lparr>url_origin = ''https://ratios.example'', param_function = None,
       param_symbol = Some ''ibm'', param_bundle = Some ''1'', param_nocache = None\<rparr>
       \<lparr>ALPHA_API_KEY = Some ''K''\<rparr> blank)) = cache blank"
  using bundle_all_or_nothing
    [where env = "\<lparr>ALPHA_API_KEY = Some ''K''\<rparr>"
      and rq = "\<lparr>url_origin = ''https://ratios.example'', param_function = None,
       param_symbol = Some ''ibm'', param_bundle = Some ''1'', param_nocache = None\<rparr>"
      and w = blank
      and out = "\<lparr>reply = script
         [HttpReply 200 (JsonText (JObj [(''symbol'', JStr ''IBM'')])),
          HttpReply 200 (JsonText (JObj [(''Note'', JStr ''Thank you for using Alpha Vantage!'')])),
          HttpReply 200 (JsonText (JObj [(''symbol'', JStr ''IBM'')])),
          HttpReply 200 (JsonText (JObj [(''symbol'', JStr ''IBM'')])),
          HttpReply 200 (JsonText (JObj [(''symbol'', JStr ''IBM'')])),
          HttpReply 200 (JsonText (JObj [(''symbol'', JStr ''IBM'')])),
          HttpReply 200 (JsonText (JObj [(''symbol'', JStr ''IBM'')])),
          HttpReply 200 (JsonText (JObj [(''symbol'', JStr ''IBM'')]))],
       random = 0\<rparr>"]
    bundle_all_or_nothing
    [where env = "\<lparr>ALPHA_API_KEY = Some ''K''\<rparr>"
      and rq = "\<lparr>url_origin = ''https://ratios.example'', param_function = None,
       param_symbol = Some ''ibm'', param_bundle = Some ''1'', param_nocache = None\<rparr>"
      and w = blank
      and out = "\<lparr>reply = script
         [HttpReply 200 (JsonText (JObj [(''symbol'', JStr ''IBM'')])),
          HttpReply 200 (JsonText (JObj [(''Note'', JStr ''Thank you for using Alpha Vantage!'')])),
          HttpReply 200 (JsonText (JObj [(''symbol'', JStr ''IBM'')])),
          HttpReply 200 (JsonText (JObj [(''symbol'', JStr ''IBM'')])),
          HttpReply 200 (JsonText (JObj [(''symbol'', JStr ''IBM'')])),
          HttpReply 200 (JsonText (JObj [(''symbol'', JStr ''IBM'')])),
          HttpReply 200 (JsonText (JObj [(''symbol'', JStr ''IBM'')])),
          HttpReply 503 (OtherText ''Service Unavailable'')],
       random = 0\<rparr>"]
  by (simp add: or_empty_def blank_def eval_defs)

subsection \<open>The single-flight coordinator\<close>

text \<open>
  C4. For every key that is not pending and every set of distinct callers of one
  execution context, the first \<open>c\<close>, then \<open>cs\<close> while the producer runs, then \<open>ds\<close> after the
  producer has completed and before the first caller's second job: the producer is
  invoked exactly once, by the first caller, and no later caller invokes it again. When
  all callers have left, the key is out of the map, whether the producer returned a
  response or threw. If it returned a response, every caller has received a copy of its
  own: the objects made are the producer's response and one new object per caller, all
  with the same content, and the \<open>i\<close>-th caller holds the \<open>i\<close>-th copy. If it threw, every
  caller has received the rejection. The second jobs run in the order in which the
  reactions were registered on the promise: the first caller, then the others as they came.
\<close>

theorem single_flight_once:
  assumes "pending s key = None" and "distinct (c # cs @ ds)"
  shows "invocations (run (map (Enter key) (c # cs)) s) = invocations s @ [key]
       \<and> pending (run (map (Enter key) (c # cs)) s) key = Some (length (promises s))
       \<and> invocations (run (map (Enter key) (c # cs) @ Settle (length (promises s)) outcome
                             # map (Enter key) ds @ map Leave (c # cs @ ds)) s)
           = invocations s @ [key]
       \<and> pending (run (map (Enter key) (c # cs) @ Settle (length (promises s)) outcome
                         # map (Enter key) ds @ map Leave (c # cs @ ds)) s) key = None
       \<and> (case outcome of
            Inl e \<Rightarrow>
              (\<forall>x \<in> set (c # cs @ ds).
                 returned (run (map (Enter key) (c # cs) @ Settle (length (promises s)) outcome
                                # map (Enter key) ds @ map Leave (c # cs @ ds)) s) x
                   = Some (Inl e))
          | Inr r \<Rightarrow>
              objects (run (map (Enter key) (c # cs) @ Settle (length (promises s)) outcome
                            # map (Enter key) ds @ map Leave (c # cs @ ds)) s)
                = objects s @ replicate (Suc (length (c # cs @ ds))) r
              \<and> (\<forall>i < length (c # cs @ ds).
                   returned (run (map (Enter key) (c # cs) @ Settle (length (promises s)) outcome
                                  # map (Enter key) ds @ map Leave (c # cs @ ds)) s)
                     ((c # cs @ ds) ! i)
                     = Some (Inr (Suc (length (objects s)) + i))))"
proof -
  define p where "p = length (promises s)"
  define fs where "fs = cs @ ds"
  define sa where "sa = sf_enter key c s"
  define s1 where "s1 = run (map (Enter key) cs) sa"
  define s2 where "s2 = sf_settle p outcome s1"
  define s2' where "s2' = run (map (Enter key) ds) s2"
  define sb where "sb = sf_leave c s2'"
  define s3 where "s3 = run (map Leave fs) sb"
  have c: "c \<notin> set fs" and d: "distinct fs" and c1: "c \<notin> set cs" and c2: "c \<notin> set ds"
    using assms(2) by (simp_all add: fs_def)
  have sa: "sa = s\<lparr>invocations := invocations s @ [key],
            promises := promises s @ [Pending],
            pending := (pending s)(key \<mapsto> p),
            suspended := (suspended s)(c \<mapsto> InTry key p)\<rparr>"
    using assms(1) by (simp add: sa_def p_def sf_enter_def)
  have "pending sa key = Some p"
    by (simp add: sa)
  from enter_burst [OF this, of cs]
  have s1: "s1 = sa\<lparr>suspended := (\<lambda>x. if x \<in> set cs then Some (InThen p) else suspended sa x)\<rparr>"
    by (simp add: s1_def)
  have run1: "run (map (Enter key) (c # cs)) s = s1"
    by (simp add: s1_def sa_def)
  have run3: "run (map (Enter key) (c # cs) @ Settle (length (promises s)) outcome
                   # map (Enter key) ds @ map Leave (c # cs @ ds)) s = s3"
    by (simp add: run_append s3_def sb_def s2'_def s2_def s1_def sa_def p_def fs_def)
  have s1_facts: "promises s1 = promises s @ [Pending]" "objects s1 = objects s"
    "suspended s1 c = Some (InTry key p)" "\<forall>x \<in> set cs. suspended s1 x = Some (InThen p)"
    "pending s1 = (pending s)(key \<mapsto> p)" "invocations s1 = invocations s @ [key]"
    using c1 by (simp_all add: s1 sa)
  have first: "invocations s1 = invocations s @ [key] \<and> pending s1 key = Some (length (promises s))"
    by (simp add: s1_facts p_def)
  have pen2: "pending s2 key = Some p" and susp2: "suspended s2 = suspended s1"
    by (simp_all add: s2_def sf_settle_def s1_facts split: sum.splits)
  from enter_burst [OF pen2, of ds]
  have s2': "s2' = s2\<lparr>suspended := (\<lambda>x. if x \<in> set ds then Some (InThen p) else suspended s2 x)\<rparr>"
    by (simp add: s2'_def)
  have susp: "suspended s2' c = Some (InTry key p)" "\<forall>x \<in> set fs. suspended s2' x = Some (InThen p)"
    using c2 s1_facts(3,4) by (auto simp add: s2' susp2 fs_def)
  show ?thesis
  proof (cases outcome)
    case (Inl e)
    have s2: "s2 = s1\<lparr>promises := promises s @ [Rejected e]\<rparr>"
      by (simp add: s2_def sf_settle_def s1_facts Inl p_def)
    have sb: "sb = s2'\<lparr>returned := (returned s2')(c \<mapsto> Inl e),
                       suspended := (suspended s2')(c := None),
                       pending := (pending s2')(key := None)\<rparr>"
      using susp(1) by (simp add: sb_def sf_leave_def sf_receive_def s2' s2 p_def)
    have "\<forall>x \<in> set fs. suspended sb x = Some (InThen p)"
      using susp(2) c by (auto simp add: sb)
    moreover have "p < length (promises sb)" "promises sb ! p = Rejected e"
      by (simp_all add: sb s2' s2 p_def)
    ultimately have b: "objects s3 = objects sb
       \<and> pending s3 = pending sb
       \<and> invocations s3 = invocations sb
       \<and> (\<forall>x \<in> set fs. returned s3 x = Some (Inl e))
       \<and> (\<forall>x. x \<notin> set fs \<longrightarrow> returned s3 x = returned sb x)"
      unfolding s3_def using leave_burst_rejected [OF d, of sb p e] by blast
    have "invocations s3 = invocations s @ [key]" "pending s3 key = None"
      "\<forall>x \<in> set (c # cs @ ds). returned s3 x = Some (Inl e)"
      using b c by (auto simp add: sb s2' s2 s1_facts fs_def)
    then show ?thesis
      using first by (simp only: run1 run3 [unfolded Inl] Inl sum.case simp_thms)
  next
    case (Inr r)
    define n where "n = length (objects s)"
    have s2: "s2 = s1\<lparr>objects := objects s @ [r], promises := promises s @ [Fulfilled n]\<rparr>"
      by (simp add: s2_def sf_settle_def s1_facts Inr p_def n_def)
    have sb: "sb = s2'\<lparr>objects := objects s @ [r, r],
                       returned := (returned s2')(c \<mapsto> Inr (Suc n)),
                       suspended := (suspended s2')(c := None),
                       pending := (pending s2')(key := None)\<rparr>"
      using susp(1) by (simp add: sb_def sf_leave_def sf_receive_def s2' s2 p_def n_def)
    have "\<forall>x \<in> set fs. suspended sb x = Some (InThen p)"
      using susp(2) c by (auto simp add: sb)
    moreover have "p < length (promises sb)" "promises sb ! p = Fulfilled n"
      "n < length (objects sb)" "objects sb ! n = r"
      by (simp_all add: sb s2' s2 p_def n_def)
    ultimately have b: "objects s3 = objects sb @ replicate (length fs) r
       \<and> pending s3 = pending sb
       \<and> invocations s3 = invocations sb
       \<and> (\<forall>i < length fs. returned s3 (fs ! i) = Some (Inr (length (objects sb) + i)))
       \<and> (\<forall>x. x \<notin> set fs \<longrightarrow> returned s3 x = returned sb x)"
      unfolding s3_def using leave_burst_fulfilled [OF d, of sb p n r] by blast
    have inv: "invocations s3 = invocations s @ [key]" and pen: "pending s3 key = None"
      using b by (simp_all add: sb s2' s2 s1_facts)
    have obj: "objects s3 = objects s @ replicate (Suc (length (c # cs @ ds))) r"
      using b by (simp add: sb s2 replicate_app_Cons_same fs_def)
    have ret: "\<forall>i < length (c # cs @ ds).
        returned s3 ((c # cs @ ds) ! i) = Some (Inr (Suc (length (objects s)) + i))"
    proof (intro allI impI)
      fix i assume "i < length (c # cs @ ds)"
      then show "returned s3 ((c # cs @ ds) ! i) = Some (Inr (Suc (length (objects s)) + i))"
        using b c by (cases i) (simp_all add: sb s2 n_def fs_def)
    qed
    show ?thesis
      using first inv pen obj ret by (simp only: run1 run3 [unfolded Inr] Inr sum.case simp_thms)
  qed
qed

theorem single_flight_once_witness:
  "pending idle ''https://alpha-proxy/v3/FETCH/OVERVIEW/IBM'' = None
   \<and> distinct (0 # [1] @ [2::nat])
   \<and> invocations
       (run (map (Enter ''https://alpha-proxy/v3/FETCH/OVERVIEW/IBM'') (0 # [1])
             @ Settle (length (promises idle))
                 (Inr \<lparr>resp_status = 200, resp_headers = [], resp_body = JObj []\<rparr>)
             # map (Enter ''https://alpha-proxy/v3/FETCH/OVERVIEW/IBM'') [2]
             @ map Leave (0 # [1] @ [2])) idle)
     = [''https://alpha-proxy/v3/FETCH/OVERVIEW/IBM'']
   \<and> pending
       (run (map (Enter ''https://alpha-proxy/v3/FETCH/OVERVIEW/IBM'') (0 # [1])
             @ Settle (length (promises idle))
                 (Inr \<lparr>resp_status = 200, resp_headers = [], resp_body = JObj []\<rparr>)
             # map (Enter ''https://alpha-proxy/v3/FETCH/OVERVIEW/IBM'') [2]
             @ map Leave (0 # [1] @ [2])) idle)
       ''https://alpha-proxy/v3/FETCH/OVERVIEW/IBM'' = None
   \<and> map (returned
       (run (map (Enter ''https://alpha-proxy/v3/FETCH/OVERVIEW/IBM'') (0 # [1])
             @ Settle (length (promises idle))
                 (Inr \<lparr>resp_status = 200, resp_headers = [], resp_body = JObj []\<rparr>)
             # map (Enter ''https://alpha-proxy/v3/FETCH/OVERVIEW/IBM'') [2]
             @ map Leave (0 # [1] @ [2])) idle)) [0, 1, 2]
     = [Some (Inr 1), Some (Inr 2), Some (Inr 3)]"
  using single_flight_once
    [where s = idle and key = "''https://alpha-proxy/v3/FETCH/OVERVIEW/IBM''"
      and c = 0 and cs = "[1]" and ds = "[2]"
      and outcome = "Inr \<lparr>resp_status = 200, resp_headers = [], resp_body = JObj []\<rparr>"]
  by (simp add: sf_defs)

end
